theory Spec2Isabelle
  imports Main
begin

section \<open>The host environment seen by \<^verbatim>\<open>camera_info.cpp\<close>\<close>

text \<open>
  The program of \<^verbatim>\<open>src/userspace/camera_info.cpp\<close> computes nothing by itself: it asks
  the environment (\<^verbatim>\<open>getenv\<close>, \<^verbatim>\<open>access\<close>, \<^verbatim>\<open>glob\<close>, \<^verbatim>\<open>stat\<close>, \<^verbatim>\<open>popen\<close>, \<^verbatim>\<open>pclose\<close>) and
  writes to \<^verbatim>\<open>std::cout\<close> and \<^verbatim>\<open>std::cerr\<close>. The environment is a record of the answers
  the library calls give; a run is the exit status together with the trace of the calls
  made and the texts written, in program order. An answer depends on the argument of the
  call only: the environment does not change during a run.
\<close>

text \<open>The file types \<^verbatim>\<open>stat\<close> can report in \<^verbatim>\<open>st_mode\<close> (it follows symbolic links).\<close>

datatype file_kind = CharDev | BlockDev | Regular | Directory | Fifo | Socket

text \<open>
  A child started by \<^verbatim>\<open>popen(cmd, "r")\<close>: the bytes it writes to its standard output, the
  value \<^verbatim>\<open>pclose\<close> returns for it (\<open>-1\<close> when closing fails, the wait status otherwise)
  and the text of \<^verbatim>\<open>strerror(errno)\<close> after \<^verbatim>\<open>pclose\<close>.
\<close>

record child =
  child_stdout :: string
  pclose_status :: int
  pclose_strerror :: string

record world =
  w_getenv :: "string \<Rightarrow> string option"        \<comment> \<open>\<^verbatim>\<open>getenv\<close>: \<open>None\<close> is the null pointer\<close>
  w_access :: "string \<Rightarrow> bool"                 \<comment> \<open>\<^verbatim>\<open>access(path, X_OK) == 0\<close>\<close>
  w_glob :: "string \<Rightarrow> int \<times> string list"      \<comment> \<open>\<^verbatim>\<open>glob\<close>: return value and \<^verbatim>\<open>gl_pathv\<close>\<close>
  w_stat :: "string \<Rightarrow> file_kind option"       \<comment> \<open>\<^verbatim>\<open>stat\<close>: \<open>None\<close> when it returns nonzero\<close>
  w_popen :: "string \<Rightarrow> child option"          \<comment> \<open>\<^verbatim>\<open>popen\<close>: \<open>None\<close> is the null pointer\<close>

text \<open>
  The trace. \<open>Out\<close> is a statement writing the program's own text to \<^verbatim>\<open>std::cout\<close>,
  \<open>Fwd\<close> is the statement \<^verbatim>\<open>std::cout << line\<close> that forwards what \<^verbatim>\<open>fgets\<close> read from
  the child, \<open>Err\<close> is a statement writing to \<^verbatim>\<open>std::cerr\<close>; the others are the library
  calls with their argument.
\<close>

datatype event =
    Getenv string
  | Access string
  | Glob string
  | Stat string
  | Popen string
  | Out string
  | Fwd string
  | Err string

fun stdout_text :: "event list \<Rightarrow> string" where
  "stdout_text [] = []"
| "stdout_text (Out s # es) = s @ stdout_text es"
| "stdout_text (Fwd s # es) = s @ stdout_text es"
| "stdout_text (e # es) = stdout_text es"

fun stderr_text :: "event list \<Rightarrow> string" where
  "stderr_text [] = []"
| "stderr_text (Err s # es) = s @ stderr_text es"
| "stderr_text (e # es) = stderr_text es"

fun is_popen :: "event \<Rightarrow> bool" where
  "is_popen (Popen c) = True"
| "is_popen e = False"

fun is_err :: "event \<Rightarrow> bool" where
  "is_err (Err s) = True"
| "is_err e = False"

fun is_scan :: "event \<Rightarrow> bool" where
  "is_scan (Glob p) = True"
| "is_scan (Stat p) = True"
| "is_scan e = False"

section \<open>\<^verbatim>\<open>isCharDevice\<close>\<close>

definition isCharDevice :: "world \<Rightarrow> string \<Rightarrow> bool" where
  "isCharDevice w path =
     (case w_stat w path of
        None \<Rightarrow> False
      | Some k \<Rightarrow> k = CharDev)"

section \<open>\<^verbatim>\<open>findV4l2Ctl\<close>\<close>

text \<open>
  \<^verbatim>\<open>std::getline(ss, token, ':')\<close> on a stream whose unread rest is \<open>s\<close>: it fails when
  nothing is left; otherwise the token is the text before the first delimiter and the
  delimiter is consumed with it.
\<close>

fun getline :: "char \<Rightarrow> string \<Rightarrow> (string \<times> string) option" where
  "getline delim [] = None"
| "getline delim (c # s) =
     Some (takeWhile (\<lambda>x. x \<noteq> delim) (c # s), drop 1 (dropWhile (\<lambda>x. x \<noteq> delim) (c # s)))"

lemma getline_shorter: "getline delim s = Some (token, rest) \<Longrightarrow> length rest < length s"
proof (cases s)
  case Nil
  assume "getline delim s = Some (token, rest)"
  with Nil show ?thesis by simp
next
  case (Cons c s')
  assume "getline delim s = Some (token, rest)"
  with Cons have "rest = drop 1 (dropWhile (\<lambda>x. x \<noteq> delim) (c # s'))" by simp
  moreover have "length (dropWhile (\<lambda>x. x \<noteq> delim) (c # s')) \<le> length (c # s')"
    by (rule length_dropWhile_le)
  ultimately show ?thesis using Cons by (cases "c = delim") auto
qed

text \<open>
  The \<^verbatim>\<open>while\<close> loop of \<^verbatim>\<open>findV4l2Ctl\<close> over the rest of the stream: \<open>Some candidate\<close> is
  \<^verbatim>\<open>return true\<close> with \<^verbatim>\<open>outPath = candidate\<close>, \<open>None\<close> is \<^verbatim>\<open>return false\<close>.
\<close>

function findV4l2Ctl_loop :: "world \<Rightarrow> string \<Rightarrow> string option \<times> event list" where
  "findV4l2Ctl_loop w ss =
     (case getline CHR '':'' ss of
        None \<Rightarrow> (None, [])
      | Some (token, ss') \<Rightarrow>
          if token = [] then findV4l2Ctl_loop w ss'
          else
            let candidate = token @ ''/v4l2-ctl'' in
            if w_access w candidate then (Some candidate, [Access candidate])
            else
              let (found, evs) = findV4l2Ctl_loop w ss' in
              (found, Access candidate # evs))"
  by pat_completeness auto
termination
  by (relation "measure (\<lambda>(w, ss). length ss)") (auto dest: getline_shorter)

declare findV4l2Ctl_loop.simps [simp del]

definition findV4l2Ctl :: "world \<Rightarrow> string option \<times> event list" where
  "findV4l2Ctl w =
     (case w_getenv w ''PATH'' of
        None \<Rightarrow> (None, [Getenv ''PATH''])
      | Some pathEnv \<Rightarrow>
          let (found, evs) = findV4l2Ctl_loop w pathEnv in
          (found, Getenv ''PATH'' # evs))"

section \<open>\<^verbatim>\<open>runCommandAndPrint\<close>\<close>

text \<open>
  \<^verbatim>\<open>fgets(line, n, fp)\<close> stores at most \<open>n - 1\<close> bytes of the rest of the stream and stops
  after a newline; \<open>fgets_read k s\<close> is what it stores when it has room for \<open>k\<close> bytes.
  It returns the null pointer exactly when nothing is left to read.
\<close>

fun fgets_read :: "nat \<Rightarrow> string \<Rightarrow> string" where
  "fgets_read k [] = []"
| "fgets_read k (c # s) =
     (if k = 0 then []
      else if c = CHR 0x0A then [c]
      else c # fgets_read (k - 1) s)"

definition line_size :: nat where
  "line_size = 1024"

text \<open>
  \<^verbatim>\<open>std::cout << line\<close> writes a C string: the bytes of the buffer before its first NUL.
\<close>

definition c_str :: "string \<Rightarrow> string" where
  "c_str buf = takeWhile (\<lambda>x. x \<noteq> CHR 0x00) buf"

lemma fgets_read_nonempty: "0 < k \<Longrightarrow> s \<noteq> [] \<Longrightarrow> fgets_read k s \<noteq> []"
  by (cases s) auto

lemma fgets_read_prefix: "fgets_read k s @ drop (length (fgets_read k s)) s = s"
  by (induction k s rule: fgets_read.induct) auto

text \<open>The \<^verbatim>\<open>while (fgets(...) != nullptr)\<close> loop over the unread output of the child.\<close>

function drain :: "string \<Rightarrow> event list" where
  "drain [] = []"
| "drain (c # s) =
     (let line = fgets_read (line_size - 1) (c # s) in
      Fwd (c_str line) # drain (drop (length line) (c # s)))"
  by pat_completeness auto
termination
proof (relation "measure length")
  show "wf (measure length)" by simp
next
  fix c :: char and s line
  assume "line = fgets_read (line_size - 1) (c # s)"
  then have "line \<noteq> []"
    using fgets_read_nonempty [of "line_size - 1" "c # s"] by (simp add: line_size_def)
  then show "(drop (length line) (c # s), c # s) \<in> measure length"
    by (cases line) auto
qed

text \<open>
  The result is the returned \<^verbatim>\<open>int\<close> with the events of the call. \<open>printedAny\<close> is true
  exactly when the loop body ran, that is when the child wrote at least one byte.
\<close>

definition runCommandAndPrint :: "world \<Rightarrow> string \<Rightarrow> int \<times> event list" where
  "runCommandAndPrint w cmd =
     (case w_popen w cmd of
        None \<Rightarrow> (- 1, [Popen cmd, Err (''Failed to run command: '' @ cmd @ ''\<newline>'')])
      | Some fp \<Rightarrow>
          let printedAny = (child_stdout fp \<noteq> []);
              evs = Popen cmd # drain (child_stdout fp)
                    @ (if \<not> printedAny then [Out ''(no output)\<newline>''] else [])
          in
          if pclose_status fp = - 1
          then (- 1, evs @ [Err (''Error closing command stream: '' @ pclose_strerror fp @ ''\<newline>'')])
          else (0, evs))"

section \<open>\<^verbatim>\<open>inspectDevice\<close>\<close>

definition rule80 :: string where
  "rule80 = replicate 80 CHR ''=''"

definition label_all :: string where
  "label_all = ''>>> BASIC INFORMATION AND CAPABILITIES (v4l2-ctl --all)\<newline>''"

definition label_formats :: string where
  "label_formats = ''>>> SUPPORTED FORMATS AND RESOLUTIONS (v4l2-ctl --list-formats-ext)\<newline>''"

text \<open>The two command lines built in the \<^verbatim>\<open>std::ostringstream\<close>s.\<close>

definition cmd_all :: "string \<Rightarrow> string \<Rightarrow> string" where
  "cmd_all v4l2CtlPath device =
     [CHR 0x22] @ v4l2CtlPath @ [CHR 0x22] @ '' --device='' @ [CHR 0x22] @ device
       @ [CHR 0x22] @ '' --all''"

definition cmd_formats :: "string \<Rightarrow> string \<Rightarrow> string" where
  "cmd_formats v4l2CtlPath device =
     [CHR 0x22] @ v4l2CtlPath @ [CHR 0x22] @ '' --device='' @ [CHR 0x22] @ device
       @ [CHR 0x22] @ '' --list-formats-ext''"

text \<open>The three statements that print the banner of a device.\<close>

definition banner :: "string \<Rightarrow> event list" where
  "banner device =
     [Out (rule80 @ ''\<newline>''),
      Out (''DEVICE: '' @ device @ ''\<newline>''),
      Out (rule80 @ ''\<newline>\<newline>'')]"

definition inspectDevice :: "world \<Rightarrow> string \<Rightarrow> string \<Rightarrow> event list" where
  "inspectDevice w v4l2CtlPath device =
     banner device
     @ [Out label_all]
     @ snd (runCommandAndPrint w (cmd_all v4l2CtlPath device))
     @ [Out ''\<newline>'']
     @ [Out label_formats]
     @ snd (runCommandAndPrint w (cmd_formats v4l2CtlPath device))
     @ [Out ''\<newline>'']"

section \<open>\<^verbatim>\<open>main\<close>\<close>

definition not_found_message :: string where
  "not_found_message =
     ''ERROR: `v4l2-ctl` not found in PATH.\<newline>''
     @ ''Install `v4l-utils` (e.g. `sudo apt-get install v4l-utils`) ''
     @ ''to use this inspection tool.\<newline>''"

definition header :: "event list" where
  "header =
     [Out ''Camera / V4L2 Device Inspection (C++ version)\<newline>'',
      Out ''---------------------------------------------\<newline>\<newline>'',
      Out ''Context:\<newline>'',
      Out ''- /dev/video* nodes are exposed by the Linux kernel's V4L2 subsystem.\<newline>'',
      Out ''- Drivers (e.g. `uvcvideo` for USB cameras) register these devices.\<newline>'',
      Out ''- This program uses `v4l2-ctl` as a front-end to V4L2 ioctls to report\<newline>'',
      Out ''  the driver- and hardware-exposed capabilities to userspace.\<newline>\<newline>'']"

definition no_devices_message :: string where
  "no_devices_message =
     ''No /dev/video* devices found. Is a camera connected and recognized?\<newline>''"

definition no_chardev_message :: string where
  "no_chardev_message = ''No character-device /dev/video* nodes found.\<newline>''"

text \<open>
  The first \<^verbatim>\<open>for\<close> loop of \<^verbatim>\<open>main\<close>, over \<^verbatim>\<open>g.gl_pathv\<close>: the vector \<^verbatim>\<open>devices\<close> it
  builds and its events.
\<close>

fun discover :: "world \<Rightarrow> string list \<Rightarrow> string list \<times> event list" where
  "discover w [] = ([], [])"
| "discover w (path # pathv) =
     (let (devices, evs) = discover w pathv in
      if \<not> isCharDevice w path then (devices, Stat path # evs)
      else (path # devices, Stat path # Out (''  - '' @ path @ ''\<newline>'') # evs))"

text \<open>The second \<^verbatim>\<open>for\<close> loop of \<^verbatim>\<open>main\<close>, over \<^verbatim>\<open>devices\<close>.\<close>

fun inspectAll :: "world \<Rightarrow> string \<Rightarrow> string list \<Rightarrow> event list" where
  "inspectAll w v4l2CtlPath [] = []"
| "inspectAll w v4l2CtlPath (dev # devices) =
     inspectDevice w v4l2CtlPath dev @ inspectAll w v4l2CtlPath devices"

text \<open>The result is the exit status of the process with the trace of the run.\<close>

definition main :: "world \<Rightarrow> int \<times> event list" where
  "main w =
     (case findV4l2Ctl w of
        (None, ev0) \<Rightarrow> (1, ev0 @ [Err not_found_message])
      | (Some v4l2CtlPath, ev0) \<Rightarrow>
          let (r, gl_pathv) = w_glob w ''/dev/video*'';
              ev1 = ev0 @ header @ [Glob ''/dev/video*'']
          in
          if r \<noteq> 0 \<or> length gl_pathv = 0 then (0, ev1 @ [Out no_devices_message])
          else
            let (devices, evs) = discover w gl_pathv;
                ev2 = ev1 @ [Out ''Discovered video devices:\<newline>''] @ evs @ [Out ''\<newline>'']
            in
            if devices = [] then (0, ev2 @ [Out no_chardev_message])
            else (0, ev2 @ inspectAll w v4l2CtlPath devices))"

section \<open>What is observed of a trace\<close>

text \<open>The calls of the backend locator.\<close>

fun is_locate :: "event \<Rightarrow> bool" where
  "is_locate (Getenv v) = True"
| "is_locate (Access p) = True"
| "is_locate e = False"

text \<open>
  The middle line of a banner: the program's own output that starts with \<^verbatim>\<open>DEVICE: \<close>.
\<close>

fun is_device_line :: "event \<Rightarrow> bool" where
  "is_device_line (Out s) = (take 8 s = ''DEVICE: '')"
| "is_device_line e = False"

text \<open>Forwarded output of a child.\<close>

fun is_fwd :: "event \<Rightarrow> bool" where
  "is_fwd (Fwd s) = True"
| "is_fwd e = False"

text \<open>
  The device set: the matches of \<^verbatim>\<open>glob\<close> that are character devices, in the order of
  \<^verbatim>\<open>gl_pathv\<close>; empty when \<^verbatim>\<open>glob\<close> fails.
\<close>

definition devices_of :: "world \<Rightarrow> string list" where
  "devices_of w =
     (let (r, gl_pathv) = w_glob w ''/dev/video*'' in
      if r \<noteq> 0 then [] else filter (isCharDevice w) gl_pathv)"

text \<open>
  A line of the list of discovered devices: the program's own output that starts with the
  marker of the list.
\<close>

fun is_listing :: "event \<Rightarrow> bool" where
  "is_listing (Out s) = (take 4 s = ''  - '')"
| "is_listing e = False"

section \<open>The search path\<close>

text \<open>
  The entries of a search path: the texts between the delimiters, in order (an empty path
  has one empty entry).
\<close>

fun fields :: "char \<Rightarrow> string \<Rightarrow> string list" where
  "fields delim [] = [[]]"
| "fields delim (c # s) =
     (if c = delim then [] # fields delim s
      else (case fields delim s of
              [] \<Rightarrow> [[c]]
            | entry # entries \<Rightarrow> (c # entry) # entries))"

text \<open>
  The locator in the words of C7: not-found when the variable is absent or empty, otherwise
  the first entry whose joined candidate is executable.
\<close>

definition first_executable_entry :: "world \<Rightarrow> string option" where
  "first_executable_entry w =
     (case w_getenv w ''PATH'' of
        None \<Rightarrow> None
      | Some pathEnv \<Rightarrow>
          if pathEnv = [] then None
          else find (w_access w)
                 (map (\<lambda>entry. entry @ ''/v4l2-ctl'') (fields CHR '':'' pathEnv)))"

text \<open>The same over the entries that are not empty.\<close>

definition first_executable_nonempty_entry :: "world \<Rightarrow> string option" where
  "first_executable_nonempty_entry w =
     (case w_getenv w ''PATH'' of
        None \<Rightarrow> None
      | Some pathEnv \<Rightarrow>
          find (w_access w)
            (map (\<lambda>entry. entry @ ''/v4l2-ctl'')
               (filter (\<lambda>entry. entry \<noteq> []) (fields CHR '':'' pathEnv))))"

text \<open>An absolute path starts with a slash.\<close>

definition is_absolute :: "string \<Rightarrow> bool" where
  "is_absolute path = (case path of [] \<Rightarrow> False | c # s \<Rightarrow> c = CHR ''/'')"

text \<open>A lookup of an environment variable.\<close>

fun is_getenv :: "event \<Rightarrow> bool" where
  "is_getenv (Getenv v) = True"
| "is_getenv e = False"

section \<open>Backend behaviour\<close>

text \<open>
  Two answers of \<^verbatim>\<open>popen\<close> show the same behaviour of the backend: both fail to start, or
  both start a child with the same output, closing fails for both or for neither, and
  with the same error text when it fails.
\<close>

definition same_answer :: "child option \<Rightarrow> child option \<Rightarrow> bool" where
  "same_answer a b =
     (case (a, b) of
        (None, None) \<Rightarrow> True
      | (Some x, Some y) \<Rightarrow>
          child_stdout x = child_stdout y
          \<and> (pclose_status x = - 1) = (pclose_status y = - 1)
          \<and> (pclose_status x = - 1 \<longrightarrow> pclose_strerror x = pclose_strerror y)
      | _ \<Rightarrow> False)"

section \<open>Example environments\<close>

text \<open>A host whose search path holds no \<^verbatim>\<open>v4l2-ctl\<close>.\<close>

definition world_no_backend :: world where
  "world_no_backend =
     \<lparr> w_getenv = (\<lambda>v. if v = ''PATH'' then Some ''/usr/local/bin:/usr/bin'' else None),
       w_access = (\<lambda>p. False),
       w_glob = (\<lambda>p. (0, [''/dev/video0''])),
       w_stat = (\<lambda>p. Some CharDev),
       w_popen = (\<lambda>c. Some \<lparr> child_stdout = ''ok\<newline>'', pclose_status = 0,
                                pclose_strerror = [] \<rparr>) \<rparr>"

text \<open>
  A host with the backend in the third entry of the search path (the second is empty) and
  three matches of which the second is a regular file. The first query of the first
  camera cannot be started; its second query prints nothing and exits with status 1 (wait
  status 256).
\<close>

definition world_two_cameras :: world where
  "world_two_cameras =
     \<lparr> w_getenv = (\<lambda>v. if v = ''PATH'' then Some ''/usr/local/bin::/usr/bin'' else None),
       w_access = (\<lambda>p. p = ''/usr/bin/v4l2-ctl''),
       w_glob = (\<lambda>p. if p = ''/dev/video*''
                        then (0, [''/dev/video0'', ''/dev/video1'', ''/dev/video2''])
                        else (3, [])),
       w_stat = (\<lambda>p. if p = ''/dev/video0'' \<or> p = ''/dev/video2'' then Some CharDev
                        else if p = ''/dev/video1'' then Some Regular
                        else None),
       w_popen = (\<lambda>c. if c = cmd_all ''/usr/bin/v4l2-ctl'' ''/dev/video0'' then None
                         else if c = cmd_formats ''/usr/bin/v4l2-ctl'' ''/dev/video0''
                         then Some \<lparr> child_stdout = [], pclose_status = 256,
                                     pclose_strerror = [] \<rparr>
                         else Some \<lparr> child_stdout = ''Driver name: uvcvideo\<newline>'',
                                     pclose_status = 0, pclose_strerror = [] \<rparr>) \<rparr>"

text \<open>The same host with a backend whose output holds a NUL byte.\<close>

definition nul_child :: child where
  "nul_child = \<lparr> child_stdout = [CHR ''a'', CHR 0x00, CHR ''b'', CHR 0x0A],
                  pclose_status = 0, pclose_strerror = [] \<rparr>"

definition world_nul_output :: world where
  "world_nul_output = world_two_cameras \<lparr> w_popen := (\<lambda>c. Some nul_child) \<rparr>"

text \<open>The same host where every match is a regular file.\<close>

definition world_only_files :: world where
  "world_only_files = world_two_cameras \<lparr> w_stat := (\<lambda>p. Some Regular) \<rparr>"

text \<open>The same host where \<^verbatim>\<open>glob\<close> matches nothing (\<^verbatim>\<open>GLOB_NOMATCH\<close>).\<close>

definition world_no_match :: world where
  "world_no_match = world_two_cameras \<lparr> w_glob := (\<lambda>p. (3, [])) \<rparr>"

text \<open>
  The same host with a search path that starts with an empty entry, and an executable
  \<^verbatim>\<open>/v4l2-ctl\<close>.
\<close>

definition world_empty_entry :: world where
  "world_empty_entry =
     world_two_cameras
       \<lparr> w_getenv := (\<lambda>v. if v = ''PATH'' then Some '':/usr/bin'' else None),
         w_access := (\<lambda>p. p = ''/v4l2-ctl'' \<or> p = ''/usr/bin/v4l2-ctl'') \<rparr>"

text \<open>The same host with a relative directory first in the search path.\<close>

definition world_relative_entry :: world where
  "world_relative_entry =
     world_two_cameras
       \<lparr> w_getenv := (\<lambda>v. if v = ''PATH'' then Some ''bin:/usr/bin'' else None),
         w_access := (\<lambda>p. p = ''bin/v4l2-ctl'' \<or> p = ''/usr/bin/v4l2-ctl'') \<rparr>"

text \<open>
  Another host: another search path and other files around, the second match a directory,
  other wait statuses of the children; the located backend, the matches, their
  character-device status and the output of the backend are those of the host above.
\<close>

definition world_other_host :: world where
  "world_other_host =
     \<lparr> w_getenv = (\<lambda>v. if v = ''PATH'' then Some ''/usr/bin:/opt/bin'' else None),
       w_access = (\<lambda>p. p = ''/usr/bin/v4l2-ctl'' \<or> p = ''/opt/bin/v4l2-ctl''),
       w_glob = (\<lambda>p. if p = ''/dev/video*''
                        then (0, [''/dev/video0'', ''/dev/video1'', ''/dev/video2''])
                        else (0, [])),
       w_stat = (\<lambda>p. if p = ''/dev/video0'' \<or> p = ''/dev/video2'' then Some CharDev
                        else if p = ''/dev/video1'' then Some Directory
                        else Some Regular),
       w_popen = (\<lambda>c. if c = cmd_all ''/usr/bin/v4l2-ctl'' ''/dev/video0'' then None
                         else if c = cmd_formats ''/usr/bin/v4l2-ctl'' ''/dev/video0''
                         then Some \<lparr> child_stdout = [], pclose_status = 0,
                                     pclose_strerror = ''Success'' \<rparr>
                         else Some \<lparr> child_stdout = ''Driver name: uvcvideo\<newline>'',
                                     pclose_status = 512, pclose_strerror = [] \<rparr>) \<rparr>"

section \<open>Properties of the model\<close>

lemma locate_stdout: "list_all is_locate es \<Longrightarrow> stdout_text es = []"
  by (induction es rule: stdout_text.induct) auto

lemma locate_stderr: "list_all is_locate es \<Longrightarrow> stderr_text es = []"
  by (induction es rule: stderr_text.induct) auto

lemma locate_no_popen: "list_all is_locate es \<Longrightarrow> filter is_popen es = []"
  by (induction es) (auto elim: is_locate.elims)

lemma locate_no_scan: "list_all is_locate es \<Longrightarrow> filter is_scan es = []"
  by (induction es) (auto elim: is_locate.elims)

lemma stdout_text_append: "stdout_text (xs @ ys) = stdout_text xs @ stdout_text ys"
  by (induction xs rule: stdout_text.induct) auto

lemma stderr_text_append: "stderr_text (xs @ ys) = stderr_text xs @ stderr_text ys"
  by (induction xs rule: stderr_text.induct) auto

lemma findV4l2Ctl_loop_locate: "list_all is_locate (snd (findV4l2Ctl_loop w ss))"
proof (induction w ss rule: findV4l2Ctl_loop.induct)
  case (1 w ss)
  show ?case
  proof (cases "getline CHR '':'' ss")
    case None
    then show ?thesis by (simp add: findV4l2Ctl_loop.simps [of w ss])
  next
    case (Some a)
    obtain token ss' where a: "a = (token, ss')" by (cases a)
    show ?thesis
      using 1 Some a
      by (auto simp: findV4l2Ctl_loop.simps [of w ss] Let_def split: prod.splits)
  qed
qed

lemma findV4l2Ctl_locate: "list_all is_locate (snd (findV4l2Ctl w))"
  using findV4l2Ctl_loop_locate
  by (auto simp: findV4l2Ctl_def split: option.splits prod.splits) (metis snd_conv)

lemma discover_fst: "fst (discover w ps) = filter (isCharDevice w) ps"
  by (induction ps) (auto split: prod.splits)

lemma inspectAll_concat: "inspectAll w p ds = concat (map (inspectDevice w p) ds)"
  by (induction ds) auto

lemma drain_fwd: "list_all is_fwd (drain s)"
  by (induction s rule: drain.induct) (auto simp: Let_def)

lemma fwd_no_popen: "list_all is_fwd es \<Longrightarrow> filter is_popen es = []"
  by (induction es) (auto elim: is_fwd.elims)

lemma fwd_no_device_line: "list_all is_fwd es \<Longrightarrow> filter is_device_line es = []"
  by (induction es) (auto elim: is_fwd.elims)

lemma fwd_no_err: "list_all is_fwd es \<Longrightarrow> filter is_err es = []"
  by (induction es) (auto elim: is_fwd.elims)

lemma run_popen: "filter is_popen (snd (runCommandAndPrint w c)) = [Popen c]"
  using fwd_no_popen [OF drain_fwd]
  by (auto simp: runCommandAndPrint_def Let_def split: option.splits)

lemma run_device_line: "filter is_device_line (snd (runCommandAndPrint w c)) = []"
  using fwd_no_device_line [OF drain_fwd]
  by (auto simp: runCommandAndPrint_def Let_def split: option.splits)

lemma banner_popen: "filter is_popen (banner d) = []"
  by (simp add: banner_def)

lemma rule80_line: "take 8 (rule80 @ s) \<noteq> ''DEVICE: ''"
  by (simp add: rule80_def eval_nat_numeral)

lemma banner_device_line:
  "filter is_device_line (banner d) = [Out (''DEVICE: '' @ d @ ''\<newline>'')]"
  by (simp add: banner_def rule80_line del: take_append)

lemma inspectDevice_popen:
  "filter is_popen (inspectDevice w p d) = [Popen (cmd_all p d), Popen (cmd_formats p d)]"
  by (simp add: inspectDevice_def banner_popen run_popen)

lemma inspectDevice_device_line:
  "filter is_device_line (inspectDevice w p d) = [Out (''DEVICE: '' @ d @ ''\<newline>'')]"
  by (simp add: inspectDevice_def banner_device_line run_device_line label_all_def
      label_formats_def)

lemma header_popen: "filter is_popen header = []"
  by (simp add: header_def)

lemma header_device_line: "filter is_device_line header = []"
  by (simp add: header_def)

lemma discover_popen: "filter is_popen (snd (discover w ps)) = []"
  by (induction ps) (auto split: prod.splits)

lemma discover_device_line: "filter is_device_line (snd (discover w ps)) = []"
  by (induction ps) (auto split: prod.splits)

lemma locate_no_device_line: "list_all is_locate es \<Longrightarrow> filter is_device_line es = []"
  by (induction es) (auto elim: is_locate.elims)

lemma main_no_match:
  assumes "findV4l2Ctl w = (Some p, ev0)" and "w_glob w ''/dev/video*'' = (r, pathv)"
    and "r \<noteq> 0 \<or> pathv = []"
  shows "main w = (0, ev0 @ header @ [Glob ''/dev/video*'', Out no_devices_message])"
  using assms by (auto simp: main_def)

lemma main_no_chardev:
  assumes "findV4l2Ctl w = (Some p, ev0)" and "w_glob w ''/dev/video*'' = (0, pathv)"
    and "pathv \<noteq> []" and "filter (isCharDevice w) pathv = []"
  shows "main w = (0, ev0 @ header @ [Glob ''/dev/video*'', Out ''Discovered video devices:\<newline>'']
                      @ snd (discover w pathv) @ [Out ''\<newline>'', Out no_chardev_message])"
  using assms discover_fst [of w pathv]
  by (auto simp: main_def split: prod.splits)

lemma main_devices:
  assumes "findV4l2Ctl w = (Some p, ev0)" and "w_glob w ''/dev/video*'' = (0, pathv)"
    and "filter (isCharDevice w) pathv \<noteq> []"
  shows "main w = (0, ev0 @ header @ [Glob ''/dev/video*'', Out ''Discovered video devices:\<newline>'']
                      @ snd (discover w pathv) @ [Out ''\<newline>'']
                      @ inspectAll w p (filter (isCharDevice w) pathv))"
proof -
  have "pathv \<noteq> []" using assms(3) by auto
  then show ?thesis
    using assms discover_fst [of w pathv]
    by (auto simp: main_def split: prod.splits)
qed

lemma filter_concat_map: "filter P (concat (map f xs)) = concat (map (\<lambda>x. filter P (f x)) xs)"
  by (induction xs) auto

lemma discover_err: "filter is_err (snd (discover w ps)) = []"
  by (induction ps) (auto split: prod.splits)

lemma discover_listing:
  "filter is_listing (snd (discover w ps))
     = map (\<lambda>d. Out (''  - '' @ d @ ''\<newline>'')) (filter (isCharDevice w) ps)"
  by (induction ps) (auto split: prod.splits)

lemma discover_none:
  "filter (isCharDevice w) ps = [] \<Longrightarrow> snd (discover w ps) = map Stat ps"
  by (induction ps) (auto split: prod.splits if_splits)

lemma header_plain: "filter is_err header = [] \<and> filter is_listing header = []"
  by (simp add: header_def)

lemma locate_no_err: "list_all is_locate es \<Longrightarrow> filter is_err es = []"
  by (induction es) (auto elim: is_locate.elims)

lemma locate_no_listing: "list_all is_locate es \<Longrightarrow> filter is_listing es = []"
  by (induction es) (auto elim: is_locate.elims)

lemma fwd_no_listing: "list_all is_fwd es \<Longrightarrow> filter is_listing es = []"
  by (induction es) (auto elim: is_fwd.elims)

lemma run_listing: "filter is_listing (snd (runCommandAndPrint w c)) = []"
  using fwd_no_listing [OF drain_fwd]
  by (auto simp: runCommandAndPrint_def Let_def split: option.splits)

lemma rule80_listing: "take 4 (rule80 @ s) \<noteq> ''  - ''"
  by (simp add: rule80_def eval_nat_numeral)

lemma inspectDevice_listing: "filter is_listing (inspectDevice w p d) = []"
  using rule80_listing
  by (simp add: inspectDevice_def banner_def run_listing label_all_def label_formats_def
      del: take_append)

text \<open>The shape of every run in which the backend was located.\<close>

lemma main_trace:
  assumes "fst (findV4l2Ctl w) = Some p"
  shows "fst (main w) = 0 \<and>
         (\<exists>pre. snd (main w) = snd (findV4l2Ctl w) @ header @ [Glob ''/dev/video*''] @ pre
                                 @ inspectAll w p (devices_of w)
              \<and> filter is_popen pre = []
              \<and> filter is_device_line pre = []
              \<and> filter is_err pre = []
              \<and> filter is_listing pre = map (\<lambda>d. Out (''  - '' @ d @ ''\<newline>'')) (devices_of w))"
proof -
  obtain ev0 where f: "findV4l2Ctl w = (Some p, ev0)"
    using assms by (cases "findV4l2Ctl w") auto
  obtain r pathv where g: "w_glob w ''/dev/video*'' = (r, pathv)"
    by (cases "w_glob w ''/dev/video*''")
  consider (nomatch) "r \<noteq> 0 \<or> pathv = []"
    | (nochar) "r = 0" "pathv \<noteq> []" "filter (isCharDevice w) pathv = []"
    | (devs) "r = 0" "filter (isCharDevice w) pathv \<noteq> []"
    by auto
  then show ?thesis
  proof cases
    case nomatch
    then have d: "devices_of w = []" by (auto simp: devices_of_def g)
    have "main w = (0, ev0 @ header @ [Glob ''/dev/video*'', Out no_devices_message])"
      using main_no_match [OF f g nomatch] .
    then show ?thesis
      by (simp add: f d no_devices_message_def)
  next
    case nochar
    then have d: "devices_of w = []" by (simp add: devices_of_def g)
    have "main w = (0, ev0 @ header @ [Glob ''/dev/video*'', Out ''Discovered video devices:\<newline>'']
                      @ snd (discover w pathv) @ [Out ''\<newline>'', Out no_chardev_message])"
      using main_no_chardev [of w p ev0 pathv] f g nochar by simp
    then show ?thesis
      by (simp add: f d no_chardev_message_def discover_popen discover_device_line
          discover_err discover_listing nochar(3))
  next
    case devs
    then have d: "devices_of w = filter (isCharDevice w) pathv" by (simp add: devices_of_def g)
    have "main w = (0, ev0 @ header @ [Glob ''/dev/video*'', Out ''Discovered video devices:\<newline>'']
                      @ snd (discover w pathv) @ [Out ''\<newline>'']
                      @ inspectAll w p (filter (isCharDevice w) pathv))"
      using main_devices [of w p ev0 pathv] f g devs by simp
    then show ?thesis
      by (simp add: f d discover_popen discover_device_line discover_err discover_listing)
  qed
qed

lemma main_popens:
  assumes "fst (findV4l2Ctl w) = Some p"
  shows "filter is_popen (snd (main w))
           = concat (map (\<lambda>d. [Popen (cmd_all p d), Popen (cmd_formats p d)]) (devices_of w))"
proof -
  from main_trace [OF assms] obtain pre where
    m: "snd (main w) = snd (findV4l2Ctl w) @ header @ [Glob ''/dev/video*''] @ pre
                        @ inspectAll w p (devices_of w)"
    and p: "filter is_popen pre = []" by blast
  show ?thesis
    by (simp add: m p locate_no_popen [OF findV4l2Ctl_locate] header_popen inspectAll_concat
        filter_concat_map inspectDevice_popen)
qed

lemma main_device_lines:
  assumes "fst (findV4l2Ctl w) = Some p"
  shows "filter is_device_line (snd (main w))
           = map (\<lambda>d. Out (''DEVICE: '' @ d @ ''\<newline>'')) (devices_of w)"
proof -
  from main_trace [OF assms] obtain pre where
    m: "snd (main w) = snd (findV4l2Ctl w) @ header @ [Glob ''/dev/video*''] @ pre
                        @ inspectAll w p (devices_of w)"
    and p: "filter is_device_line pre = []" by blast
  have c: "concat (map (\<lambda>d. [Out (''DEVICE: '' @ d @ ''\<newline>'')]) ds)
             = map (\<lambda>d. Out (''DEVICE: '' @ d @ ''\<newline>'')) ds" for ds
    by (induction ds) auto
  show ?thesis
    by (simp add: m p locate_no_device_line [OF findV4l2Ctl_locate] header_device_line
        inspectAll_concat filter_concat_map inspectDevice_device_line c)
qed

lemma main_listing:
  assumes "fst (findV4l2Ctl w) = Some p"
  shows "filter is_listing (snd (main w))
           = map (\<lambda>d. Out (''  - '' @ d @ ''\<newline>'')) (devices_of w)"
proof -
  from main_trace [OF assms] obtain pre where
    m: "snd (main w) = snd (findV4l2Ctl w) @ header @ [Glob ''/dev/video*''] @ pre
                        @ inspectAll w p (devices_of w)"
    and p: "filter is_listing pre = map (\<lambda>d. Out (''  - '' @ d @ ''\<newline>'')) (devices_of w)"
    by blast
  have c: "concat (map (\<lambda>d. []) ds) = ([] :: event list)" for ds :: "string list"
    by (induction ds) auto
  show ?thesis
    by (simp add: m p locate_no_listing [OF findV4l2Ctl_locate] header_plain
        inspectAll_concat filter_concat_map inspectDevice_listing c)
qed

lemma main_errs:
  assumes "fst (findV4l2Ctl w) = Some p"
  shows "filter is_err (snd (main w))
           = concat (map (\<lambda>d. filter is_err (inspectDevice w p d)) (devices_of w))"
proof -
  from main_trace [OF assms] obtain pre where
    m: "snd (main w) = snd (findV4l2Ctl w) @ header @ [Glob ''/dev/video*''] @ pre
                        @ inspectAll w p (devices_of w)"
    and p: "filter is_err pre = []" by blast
  show ?thesis
    by (simp add: m p locate_no_err [OF findV4l2Ctl_locate] header_plain
        inspectAll_concat filter_concat_map)
qed

lemma world_no_backend_locate:
  "findV4l2Ctl world_no_backend
     = (None, [Getenv ''PATH'', Access ''/usr/local/bin/v4l2-ctl'', Access ''/usr/bin/v4l2-ctl''])"
  by (simp add: findV4l2Ctl_def world_no_backend_def findV4l2Ctl_loop.simps)

lemma world_two_cameras_locate:
  "findV4l2Ctl world_two_cameras
     = (Some ''/usr/bin/v4l2-ctl'',
        [Getenv ''PATH'', Access ''/usr/local/bin/v4l2-ctl'', Access ''/usr/bin/v4l2-ctl''])"
  by (simp add: findV4l2Ctl_def world_two_cameras_def findV4l2Ctl_loop.simps Let_def)

lemma world_two_cameras_devices:
  "devices_of world_two_cameras = [''/dev/video0'', ''/dev/video2'']"
  by (simp add: devices_of_def world_two_cameras_def isCharDevice_def)

lemma run_shape:
  "\<exists>out. snd (runCommandAndPrint w c) = Popen c # out
         \<and> filter is_popen out = [] \<and> filter is_device_line out = []"
  using fwd_no_popen [OF drain_fwd] fwd_no_device_line [OF drain_fwd]
  by (auto simp: runCommandAndPrint_def Let_def split: option.splits)

lemma inspectDevice_shape:
  "\<exists>out1 out2.
      inspectDevice w p d
        = banner d @ [Out label_all, Popen (cmd_all p d)] @ out1
          @ [Out ''\<newline>'', Out label_formats, Popen (cmd_formats p d)] @ out2
          @ [Out ''\<newline>'']
      \<and> filter is_popen (out1 @ out2) = []
      \<and> filter is_device_line (out1 @ out2) = []"
proof -
  obtain out1 where 1: "snd (runCommandAndPrint w (cmd_all p d)) = Popen (cmd_all p d) # out1"
    "filter is_popen out1 = []" "filter is_device_line out1 = []"
    using run_shape by blast
  obtain out2 where 2: "snd (runCommandAndPrint w (cmd_formats p d)) = Popen (cmd_formats p d) # out2"
    "filter is_popen out2 = []" "filter is_device_line out2 = []"
    using run_shape by blast
  show ?thesis
    by (rule exI [of _ out1], rule exI [of _ out2]) (simp add: inspectDevice_def 1 2)
qed

lemma no_err_stderr: "filter is_err es = [] \<Longrightarrow> stderr_text es = []"
  by (induction es rule: stderr_text.induct) auto

lemma cmd_all_inj: "cmd_all p d = cmd_all p e \<Longrightarrow> d = e"
  by (simp add: cmd_all_def)

lemma cmd_formats_inj: "cmd_formats p d = cmd_formats p e \<Longrightarrow> d = e"
  by (simp add: cmd_formats_def)

lemma cmd_all_formats: "cmd_all p d \<noteq> cmd_formats q e"
proof
  assume "cmd_all p d = cmd_formats q e"
  then have "last (cmd_all p d) = last (cmd_formats q e)" by simp
  then show False by (simp add: cmd_all_def cmd_formats_def)
qed

lemma cmd_formats_all: "cmd_formats q e \<noteq> cmd_all p d"
  using cmd_all_formats [of p d q e] by metis

lemma devices_of_chardev: "d \<in> set (devices_of w) \<Longrightarrow> isCharDevice w d"
  by (auto simp: devices_of_def split: prod.splits if_splits)

lemma world_only_files_locate:
  "findV4l2Ctl world_only_files
     = (Some ''/usr/bin/v4l2-ctl'',
        [Getenv ''PATH'', Access ''/usr/local/bin/v4l2-ctl'', Access ''/usr/bin/v4l2-ctl''])"
  by (simp add: findV4l2Ctl_def world_only_files_def world_two_cameras_def
      findV4l2Ctl_loop.simps Let_def)

lemma world_two_cameras_glob:
  "w_glob world_two_cameras ''/dev/video*''
     = (0, [''/dev/video0'', ''/dev/video1'', ''/dev/video2''])"
  by (simp add: world_two_cameras_def)

lemma fgets_read_set: "set (fgets_read k s) \<subseteq> set s"
  by (induction k s rule: fgets_read.induct) auto

lemma c_str_id: "CHR 0x00 \<notin> set buf \<Longrightarrow> c_str buf = buf"
  by (auto simp: c_str_def takeWhile_eq_all_conv)

lemma drain_verbatim: "CHR 0x00 \<notin> set s \<Longrightarrow> stdout_text (drain s) = s"
proof (induction s rule: drain.induct)
  case 1
  show ?case by simp
next
  case (2 c s)
  let ?line = "fgets_read (line_size - 1) (c # s)"
  have l: "CHR 0x00 \<notin> set ?line"
    using fgets_read_set [of "line_size - 1" "c # s"] "2.prems" by blast
  have r: "CHR 0x00 \<notin> set (drop (length ?line) (c # s))"
    using set_drop_subset [of "length ?line" "c # s"] "2.prems" by blast
  have "stdout_text (drain (c # s)) = ?line @ stdout_text (drain (drop (length ?line) (c # s)))"
    using c_str_id [OF l] by (simp add: Let_def del: fgets_read.simps)
  also have "\<dots> = ?line @ drop (length ?line) (c # s)"
    using "2.IH" [OF refl r] by simp
  also have "\<dots> = c # s"
    by (rule fgets_read_prefix)
  finally show ?case .
qed

lemma fwd_no_marker: "list_all is_fwd es \<Longrightarrow> Out s \<notin> set es"
  by (induction es) auto

lemma fields_nonempty: "fields delim s \<noteq> []"
  by (induction s) (auto split: list.splits)

lemma fields_unfold:
  "fields delim s
     = takeWhile (\<lambda>x. x \<noteq> delim) s
       # (if dropWhile (\<lambda>x. x \<noteq> delim) s = [] then []
          else fields delim (tl (dropWhile (\<lambda>x. x \<noteq> delim) s)))"
proof (induction s)
  case Nil
  show ?case by simp
next
  case (Cons c s)
  show ?case
  proof (cases "c = delim")
    case True
    then show ?thesis by simp
  next
    case False
    obtain entry entries where e: "fields delim s = entry # entries"
      using fields_nonempty [of delim s] by (cases "fields delim s") auto
    have "entry = takeWhile (\<lambda>x. x \<noteq> delim) s"
      and "entries = (if dropWhile (\<lambda>x. x \<noteq> delim) s = [] then []
                      else fields delim (tl (dropWhile (\<lambda>x. x \<noteq> delim) s)))"
      using Cons.IH e by simp_all
    then show ?thesis using False e by auto
  qed
qed

lemma getline_fields:
  assumes "getline delim ss = Some (token, ss')"
  shows "filter (\<lambda>e. e \<noteq> []) (fields delim ss)
           = filter (\<lambda>e. e \<noteq> []) (token # fields delim ss')"
proof -
  from assms obtain c s where ss: "ss = c # s"
    by (cases ss) auto
  have t: "token = takeWhile (\<lambda>x. x \<noteq> delim) ss"
    and r: "ss' = drop 1 (dropWhile (\<lambda>x. x \<noteq> delim) ss)"
    using assms ss by auto
  show ?thesis
  proof (cases "dropWhile (\<lambda>x. x \<noteq> delim) ss = []")
    case True
    have "ss' = []" unfolding r True by simp
    then show ?thesis
      using True by (subst fields_unfold) (simp add: t)
  next
    case False
    have r': "tl (dropWhile (\<lambda>x. x \<noteq> delim) ss) = ss'"
      unfolding r by (simp add: drop_Suc)
    have "fields delim ss
            = takeWhile (\<lambda>x. x \<noteq> delim) ss
              # fields delim (tl (dropWhile (\<lambda>x. x \<noteq> delim) ss))"
      using fields_unfold [of delim ss] False by (simp only: if_False)
    then have "fields delim ss = token # fields delim ss'"
      by (simp only: r' t)
    then show ?thesis
      by (simp only:)
  qed
qed

lemma findV4l2Ctl_loop_find:
  "fst (findV4l2Ctl_loop w ss)
     = find (w_access w)
         (map (\<lambda>entry. entry @ ''/v4l2-ctl'')
            (filter (\<lambda>entry. entry \<noteq> []) (fields CHR '':'' ss)))"
proof (induction w ss rule: findV4l2Ctl_loop.induct)
  case (1 w ss)
  show ?case
  proof (cases "getline CHR '':'' ss")
    case None
    then have "ss = []" by (cases ss) auto
    then show ?thesis by (simp add: findV4l2Ctl_loop.simps [of w "[]"])
  next
    case (Some a)
    obtain token ss' where a: "a = (token, ss')" by (cases a)
    have g: "getline CHR '':'' ss = Some (token, ss')" using Some a by simp
    note f = getline_fields [OF g]
    show ?thesis
    proof (cases "token = []")
      case True
      have "fst (findV4l2Ctl_loop w ss) = fst (findV4l2Ctl_loop w ss')"
        using g True by (simp add: findV4l2Ctl_loop.simps [of w ss])
      also have "\<dots> = find (w_access w)
         (map (\<lambda>entry. entry @ ''/v4l2-ctl'')
            (filter (\<lambda>entry. entry \<noteq> []) (fields CHR '':'' ss')))"
        using "1.IH"(1) [OF g refl True] .
      finally show ?thesis using True by (simp add: f)
    next
      case False
      show ?thesis
      proof (cases "w_access w (token @ ''/v4l2-ctl'')")
        case True
        then show ?thesis
          using g False by (simp add: findV4l2Ctl_loop.simps [of w ss] f Let_def)
      next
        case acc: False
        have "fst (findV4l2Ctl_loop w ss) = fst (findV4l2Ctl_loop w ss')"
          using g False acc
          by (simp add: findV4l2Ctl_loop.simps [of w ss] Let_def split: prod.splits)
        also have "\<dots> = find (w_access w)
           (map (\<lambda>entry. entry @ ''/v4l2-ctl'')
              (filter (\<lambda>entry. entry \<noteq> []) (fields CHR '':'' ss')))"
          using "1.IH"(2) [OF g refl False refl acc] .
        finally show ?thesis using False acc by (simp add: f)
      qed
    qed
  qed
qed

lemma findV4l2Ctl_fst:
  "fst (findV4l2Ctl w) = first_executable_nonempty_entry w"
  using findV4l2Ctl_loop_find
  by (simp add: findV4l2Ctl_def first_executable_nonempty_entry_def
      split: option.splits prod.splits) (metis fst_conv)

lemma find_SomeD: "find P xs = Some x \<Longrightarrow> P x \<and> x \<in> set xs"
  by (induction xs) (auto split: if_splits)

lemma is_absolute_append: "entry \<noteq> [] \<Longrightarrow> is_absolute (entry @ s) = is_absolute entry"
  by (cases entry) (auto simp: is_absolute_def)

lemma locate_getenv_once:
  "filter is_getenv (snd (findV4l2Ctl w)) = [Getenv ''PATH'']"
proof -
  have l: "filter is_getenv (snd (findV4l2Ctl_loop w ss)) = []" for ss
  proof (induction w ss rule: findV4l2Ctl_loop.induct)
    case (1 w ss)
    show ?case
    proof (cases "getline CHR '':'' ss")
      case None
      then show ?thesis by (simp add: findV4l2Ctl_loop.simps [of w ss])
    next
      case (Some a)
      obtain token ss' where a: "a = (token, ss')" by (cases a)
      show ?thesis
        using 1 Some a
        by (auto simp: findV4l2Ctl_loop.simps [of w ss] Let_def split: prod.splits)
    qed
  qed
  show ?thesis
  proof (cases "w_getenv w ''PATH''")
    case None
    then show ?thesis by (simp add: findV4l2Ctl_def)
  next
    case (Some pathEnv)
    obtain found evs where f: "findV4l2Ctl_loop w pathEnv = (found, evs)"
      by (cases "findV4l2Ctl_loop w pathEnv")
    have "filter is_getenv evs = []" using l [of pathEnv] f by simp
    then show ?thesis by (simp add: findV4l2Ctl_def Some f)
  qed
qed

lemma fwd_no_getenv: "list_all is_fwd es \<Longrightarrow> filter is_getenv es = []"
  by (induction es) (auto elim: is_fwd.elims)

lemma inspectDevice_getenv: "filter is_getenv (inspectDevice w p d) = []"
  using fwd_no_getenv [OF drain_fwd]
  by (auto simp: inspectDevice_def banner_def runCommandAndPrint_def Let_def
      split: option.splits)

lemma inspectAll_getenv: "filter is_getenv (inspectAll w p ds) = []"
  by (induction ds) (simp_all add: inspectDevice_getenv)

lemma discover_getenv: "filter is_getenv (snd (discover w ps)) = []"
  by (induction ps) (auto split: prod.splits)

lemma main_getenv_once: "filter is_getenv (snd (main w)) = [Getenv ''PATH'']"
proof (cases "fst (findV4l2Ctl w)")
  case None
  then obtain ev0 where f: "findV4l2Ctl w = (None, ev0)"
    by (cases "findV4l2Ctl w") auto
  show ?thesis
    using locate_getenv_once [of w] by (simp add: main_def f)
next
  case (Some p)
  then obtain ev0 where f: "findV4l2Ctl w = (Some p, ev0)"
    by (cases "findV4l2Ctl w") auto
  obtain r pathv where g: "w_glob w ''/dev/video*'' = (r, pathv)"
    by (cases "w_glob w ''/dev/video*''")
  have h: "filter is_getenv header = []"
    by (simp add: header_def)
  have l: "filter is_getenv ev0 = [Getenv ''PATH'']"
    using locate_getenv_once [of w] by (simp add: f)
  consider (nomatch) "r \<noteq> 0 \<or> pathv = []"
    | (nochar) "r = 0" "pathv \<noteq> []" "filter (isCharDevice w) pathv = []"
    | (devs) "r = 0" "filter (isCharDevice w) pathv \<noteq> []"
    by auto
  then show ?thesis
  proof cases
    case nomatch
    show ?thesis
      by (simp add: main_no_match [OF f g nomatch] h l)
  next
    case nochar
    have "main w = (0, ev0 @ header @ [Glob ''/dev/video*'', Out ''Discovered video devices:\<newline>'']
                      @ snd (discover w pathv) @ [Out ''\<newline>'', Out no_chardev_message])"
      using main_no_chardev [of w p ev0 pathv] f g nochar by simp
    then show ?thesis
      by (simp add: h l discover_getenv)
  next
    case devs
    have "main w = (0, ev0 @ header @ [Glob ''/dev/video*'', Out ''Discovered video devices:\<newline>'']
                      @ snd (discover w pathv) @ [Out ''\<newline>'']
                      @ inspectAll w p (filter (isCharDevice w) pathv))"
      using main_devices [of w p ev0 pathv] f g devs by simp
    then show ?thesis
      by (simp add: h l discover_getenv inspectAll_getenv)
  qed
qed

lemma run_same_answer:
  "same_answer (w_popen w1 c) (w_popen w2 c) \<Longrightarrow>
     runCommandAndPrint w1 c = runCommandAndPrint w2 c"
  by (auto simp: same_answer_def runCommandAndPrint_def Let_def split: option.splits)

lemma discover_cong:
  "\<forall>path \<in> set ps. isCharDevice w1 path = isCharDevice w2 path \<Longrightarrow>
     discover w1 ps = discover w2 ps"
  by (induction ps) (auto split: prod.splits)

lemma inspectAll_cong:
  "\<forall>d \<in> set ds. inspectDevice w1 p d = inspectDevice w2 p d \<Longrightarrow>
     inspectAll w1 p ds = inspectAll w2 p ds"
  by (induction ds) auto

lemma main_found_cong:
  assumes f1: "findV4l2Ctl w1 = (Some p, ev1)" and f2: "findV4l2Ctl w2 = (Some p, ev2)"
    and g: "w_glob w1 ''/dev/video*'' = w_glob w2 ''/dev/video*''"
    and c: "\<forall>path \<in> set (snd (w_glob w1 ''/dev/video*'')).
              isCharDevice w1 path = isCharDevice w2 path"
    and i: "\<forall>d \<in> set (devices_of w1). inspectDevice w1 p d = inspectDevice w2 p d"
  shows "\<exists>rest. main w1 = (0, ev1 @ rest) \<and> main w2 = (0, ev2 @ rest)"
proof -
  obtain r pathv where g1: "w_glob w1 ''/dev/video*'' = (r, pathv)"
    by (cases "w_glob w1 ''/dev/video*''")
  have g2: "w_glob w2 ''/dev/video*'' = (r, pathv)"
    using g g1 by simp
  have d: "discover w2 pathv = discover w1 pathv"
    using discover_cong [of pathv w1 w2] c g1 by simp
  show ?thesis
  proof (cases "r \<noteq> 0 \<or> pathv = []")
    case True
    show ?thesis
      using main_no_match [OF f1 g1 True] main_no_match [OF f2 g2 True] by simp
  next
    case False
    then have r0: "r = 0" and ne: "pathv \<noteq> []" by auto
    have fl: "filter (isCharDevice w2) pathv = filter (isCharDevice w1) pathv"
      using c g1 by (auto intro: filter_cong)
    show ?thesis
    proof (cases "filter (isCharDevice w1) pathv = []")
      case True
      have "main w1 = (0, ev1 @ header @ [Glob ''/dev/video*'', Out ''Discovered video devices:\<newline>'']
                      @ snd (discover w1 pathv) @ [Out ''\<newline>'', Out no_chardev_message])"
        using main_no_chardev [of w1 p ev1 pathv] f1 g1 r0 ne True by simp
      moreover
      have "main w2 = (0, ev2 @ header @ [Glob ''/dev/video*'', Out ''Discovered video devices:\<newline>'']
                      @ snd (discover w1 pathv) @ [Out ''\<newline>'', Out no_chardev_message])"
        using main_no_chardev [of w2 p ev2 pathv] f2 g2 r0 ne True fl d by simp
      ultimately show ?thesis by simp
    next
      case nonempty: False
      have dv1: "devices_of w1 = filter (isCharDevice w1) pathv"
        by (simp add: devices_of_def g1 r0)
      have ia: "inspectAll w2 p (filter (isCharDevice w1) pathv)
                  = inspectAll w1 p (filter (isCharDevice w1) pathv)"
        using inspectAll_cong [of "filter (isCharDevice w1) pathv" w1 p w2] i dv1 by simp
      have "main w1 = (0, ev1 @ header @ [Glob ''/dev/video*'', Out ''Discovered video devices:\<newline>'']
                      @ snd (discover w1 pathv) @ [Out ''\<newline>'']
                      @ inspectAll w1 p (filter (isCharDevice w1) pathv))"
        using main_devices [of w1 p ev1 pathv] f1 g1 r0 nonempty by simp
      moreover
      have "main w2 = (0, ev2 @ header @ [Glob ''/dev/video*'', Out ''Discovered video devices:\<newline>'']
                      @ snd (discover w1 pathv) @ [Out ''\<newline>'']
                      @ inspectAll w1 p (filter (isCharDevice w1) pathv))"
        using main_devices [of w2 p ev2 pathv] f2 g2 r0 nonempty fl d ia by simp
      ultimately show ?thesis by simp
    qed
  qed
qed

lemma world_other_host_locate:
  "findV4l2Ctl world_other_host = (Some ''/usr/bin/v4l2-ctl'', [Getenv ''PATH'', Access ''/usr/bin/v4l2-ctl''])"
  by (simp add: findV4l2Ctl_def world_other_host_def findV4l2Ctl_loop.simps Let_def)

lemma findV4l2Ctl_loop_popen:
  "findV4l2Ctl_loop (w\<lparr>w_popen := f\<rparr>) ss = findV4l2Ctl_loop w ss"
proof (induction w ss rule: findV4l2Ctl_loop.induct)
  case (1 w ss)
  show ?case
  proof (cases "getline CHR '':'' ss")
    case None
    then show ?thesis
      by (simp add: findV4l2Ctl_loop.simps [of w ss]
          findV4l2Ctl_loop.simps [of "w\<lparr>w_popen := f\<rparr>" ss])
  next
    case (Some a)
    obtain token ss' where a: "a = (token, ss')" by (cases a)
    show ?thesis
      using 1 Some a
      by (simp add: findV4l2Ctl_loop.simps [of w ss]
          findV4l2Ctl_loop.simps [of "w\<lparr>w_popen := f\<rparr>" ss] Let_def)
  qed
qed

lemma findV4l2Ctl_popen: "findV4l2Ctl (w\<lparr>w_popen := f\<rparr>) = findV4l2Ctl w"
  by (simp add: findV4l2Ctl_def findV4l2Ctl_loop_popen split: option.splits)

lemma main_cong:
  assumes f: "findV4l2Ctl w1 = findV4l2Ctl w2"
    and g: "w_glob w1 ''/dev/video*'' = w_glob w2 ''/dev/video*''"
    and c: "\<forall>path. isCharDevice w1 path = isCharDevice w2 path"
    and i: "\<forall>cmd. runCommandAndPrint w1 cmd = runCommandAndPrint w2 cmd"
  shows "main w1 = main w2"
proof -
  obtain found ev0 where f1: "findV4l2Ctl w1 = (found, ev0)"
    by (cases "findV4l2Ctl w1")
  have f2: "findV4l2Ctl w2 = (found, ev0)" using f f1 by simp
  show ?thesis
  proof (cases found)
    case None
    then show ?thesis using f1 f2 by (simp add: main_def)
  next
    case (Some p)
    have "\<exists>rest. main w1 = (0, ev0 @ rest) \<and> main w2 = (0, ev0 @ rest)"
      using main_found_cong [OF f1 [unfolded Some] f2 [unfolded Some] g] c i
      by (simp add: inspectDevice_def)
    then show ?thesis by auto
  qed
qed

lemma world_no_match_locate:
  "findV4l2Ctl world_no_match
     = (Some ''/usr/bin/v4l2-ctl'',
        [Getenv ''PATH'', Access ''/usr/local/bin/v4l2-ctl'', Access ''/usr/bin/v4l2-ctl''])"
  by (simp add: findV4l2Ctl_def world_no_match_def world_two_cameras_def
      findV4l2Ctl_loop.simps Let_def)

lemma fwd_stderr: "list_all is_fwd es \<Longrightarrow> stderr_text es = []"
  by (rule no_err_stderr) (rule fwd_no_err)

lemma run_stderr:
  "stderr_text (snd (runCommandAndPrint w c))
     = (case w_popen w c of
          None \<Rightarrow> ''Failed to run command: '' @ c @ ''\<newline>''
        | Some fp \<Rightarrow>
            if pclose_status fp = - 1
            then ''Error closing command stream: '' @ pclose_strerror fp @ ''\<newline>''
            else [])"
  using fwd_stderr [OF drain_fwd]
  by (simp add: runCommandAndPrint_def Let_def stderr_text_append split: option.splits)

lemma inspectDevice_stderr:
  "stderr_text (inspectDevice w p d)
     = stderr_text (snd (runCommandAndPrint w (cmd_all p d)))
       @ stderr_text (snd (runCommandAndPrint w (cmd_formats p d)))"
  by (simp add: inspectDevice_def banner_def stderr_text_append)

lemma inspectAll_stderr:
  "stderr_text (inspectAll w p ds)
     = concat (map (\<lambda>d. stderr_text (inspectDevice w p d)) ds)"
  by (induction ds) (simp_all add: stderr_text_append)

lemma main_stderr:
  assumes "fst (findV4l2Ctl w) = Some p"
  shows "stderr_text (snd (main w))
           = concat (map (\<lambda>d. stderr_text (inspectDevice w p d)) (devices_of w))"
proof -
  from main_trace [OF assms] obtain pre where
    m: "snd (main w) = snd (findV4l2Ctl w) @ header @ [Glob ''/dev/video*''] @ pre
                        @ inspectAll w p (devices_of w)"
    and p: "filter is_err pre = []" by blast
  have h: "stderr_text header = []"
    by (rule no_err_stderr) (simp add: header_plain)
  show ?thesis
    by (simp add: m stderr_text_append locate_stderr [OF findV4l2Ctl_locate] h
        no_err_stderr [OF p] inspectAll_stderr)
qed

lemma main_block:
  assumes "fst (findV4l2Ctl w) = Some p" and "d \<in> set (devices_of w)"
  shows "\<exists>before after. snd (main w) = before @ inspectDevice w p d @ after"
proof -
  from main_trace [OF assms(1)] obtain pre where
    m: "snd (main w) = snd (findV4l2Ctl w) @ header @ [Glob ''/dev/video*''] @ pre
                        @ inspectAll w p (devices_of w)" by blast
  from assms(2) obtain ds1 ds2 where s: "devices_of w = ds1 @ d # ds2"
    by (auto simp: in_set_conv_decomp)
  have "snd (main w)
          = (snd (findV4l2Ctl w) @ header @ [Glob ''/dev/video*''] @ pre @ inspectAll w p ds1)
            @ inspectDevice w p d @ inspectAll w p ds2"
    by (simp add: m s inspectAll_concat)
  then show ?thesis by (intro exI)
qed

section \<open>The claims\<close>

text \<open>
  C1. When the backend locator does not find \<^verbatim>\<open>v4l2-ctl\<close>, the run ends with exit
  status 1; after the locator's own calls the only thing it does is to write to standard
  error the two lines that say that \<^verbatim>\<open>v4l2-ctl\<close> was not found in \<^verbatim>\<open>PATH\<close> and that the
  package \<^verbatim>\<open>v4l-utils\<close> is to be installed. Nothing is written to standard output, the
  device namespace is neither globbed nor stat'ed, and no command is started.
\<close>

theorem backend_missing_is_fatal:
  assumes "fst (findV4l2Ctl w) = None"
  shows "fst (main w) = 1
       \<and> snd (main w)
           = snd (findV4l2Ctl w)
             @ [Err (''ERROR: `v4l2-ctl` not found in PATH.\<newline>''
                     @ ''Install `v4l-utils` (e.g. `sudo apt-get install v4l-utils`) ''
                     @ ''to use this inspection tool.\<newline>'')]
       \<and> stderr_text (snd (main w))
           = ''ERROR: `v4l2-ctl` not found in PATH.\<newline>''
             @ ''Install `v4l-utils` (e.g. `sudo apt-get install v4l-utils`) ''
             @ ''to use this inspection tool.\<newline>''
       \<and> stdout_text (snd (main w)) = []
       \<and> filter is_scan (snd (main w)) = []
       \<and> filter is_popen (snd (main w)) = []"
proof -
  obtain ev0 where f: "findV4l2Ctl w = (None, ev0)"
    using assms by (cases "findV4l2Ctl w") auto
  have l: "list_all is_locate ev0"
    using findV4l2Ctl_locate [of w] f by simp
  have m: "main w = (1, ev0 @ [Err not_found_message])"
    by (simp add: main_def f)
  show ?thesis
    using l by (simp add: m f stdout_text_append stderr_text_append locate_stdout locate_stderr
        locate_no_popen locate_no_scan not_found_message_def)
qed

theorem backend_missing_is_fatal_witness:
  "fst (findV4l2Ctl world_no_backend) = None
   \<and> main world_no_backend
       = (1, [Getenv ''PATH'', Access ''/usr/local/bin/v4l2-ctl'', Access ''/usr/bin/v4l2-ctl'',
              Err (''ERROR: `v4l2-ctl` not found in PATH.\<newline>''
                   @ ''Install `v4l-utils` (e.g. `sudo apt-get install v4l-utils`) ''
                   @ ''to use this inspection tool.\<newline>'')])
   \<and> stderr_text (snd (main world_no_backend))
       = ''ERROR: `v4l2-ctl` not found in PATH.\<newline>''
         @ ''Install `v4l-utils` (e.g. `sudo apt-get install v4l-utils`) ''
         @ ''to use this inspection tool.\<newline>''
   \<and> stdout_text (snd (main world_no_backend)) = []
   \<and> filter is_scan (snd (main world_no_backend)) = []"
  using backend_missing_is_fatal [of world_no_backend]
  by (simp add: world_no_backend_locate prod_eq_iff)

text \<open>
  C2. In every run in which the backend was located, the trace ends with one block per
  discovered character device, in discovery order, and nothing before these blocks is a
  \<^verbatim>\<open>DEVICE:\<close> line or starts a command. So the \<^verbatim>\<open>DEVICE:\<close> lines the program writes are
  exactly those of the \<open>N\<close> devices, in order; the commands started are exactly, per
  device in order, the quoted backend path with the quoted device and \<^verbatim>\<open>--all\<close>, and then the
  same with \<^verbatim>\<open>--list-formats-ext\<close>; and the block of a device is its banner (a rule of 80
  \<^verbatim>\<open>=\<close>, the \<^verbatim>\<open>DEVICE:\<close> line, a rule and a blank line), the label of the first section,
  the first command with its output, a blank line, the label of the second section, the
  second command with its output, a blank line.
\<close>

theorem report_per_device:
  assumes "fst (findV4l2Ctl w) = Some p"
  shows "(\<exists>pre. snd (main w) = pre @ concat (map (inspectDevice w p) (devices_of w))
               \<and> filter is_device_line pre = [] \<and> filter is_popen pre = [])
       \<and> filter is_device_line (snd (main w))
           = map (\<lambda>d. Out (''DEVICE: '' @ d @ ''\<newline>'')) (devices_of w)
       \<and> length (filter is_device_line (snd (main w))) = length (devices_of w)
       \<and> filter is_popen (snd (main w))
           = concat (map (\<lambda>d.
               [Popen (CHR 0x22 # p @ CHR 0x22 # '' --device='' @ CHR 0x22 # d
                         @ CHR 0x22 # '' --all''),
                Popen (CHR 0x22 # p @ CHR 0x22 # '' --device='' @ CHR 0x22 # d
                         @ CHR 0x22 # '' --list-formats-ext'')]) (devices_of w))
       \<and> (\<forall>d. \<exists>out1 out2.
            inspectDevice w p d
              = [Out (replicate 80 CHR ''='' @ ''\<newline>''),
                 Out (''DEVICE: '' @ d @ ''\<newline>''),
                 Out (replicate 80 CHR ''='' @ ''\<newline>\<newline>''),
                 Out ''>>> BASIC INFORMATION AND CAPABILITIES (v4l2-ctl --all)\<newline>'',
                 Popen (CHR 0x22 # p @ CHR 0x22 # '' --device='' @ CHR 0x22 # d
                          @ CHR 0x22 # '' --all'')]
                @ out1
                @ [Out ''\<newline>'',
                   Out ''>>> SUPPORTED FORMATS AND RESOLUTIONS (v4l2-ctl --list-formats-ext)\<newline>'',
                   Popen (CHR 0x22 # p @ CHR 0x22 # '' --device='' @ CHR 0x22 # d
                            @ CHR 0x22 # '' --list-formats-ext'')]
                @ out2
                @ [Out ''\<newline>'']
            \<and> filter is_popen (out1 @ out2) = []
            \<and> filter is_device_line (out1 @ out2) = [])"
proof -
  from main_trace [OF assms] obtain pre where
    m: "snd (main w) = snd (findV4l2Ctl w) @ header @ [Glob ''/dev/video*''] @ pre
                        @ inspectAll w p (devices_of w)"
    and p: "filter is_popen pre = []" "filter is_device_line pre = []" by blast
  let ?pre = "snd (findV4l2Ctl w) @ header @ [Glob ''/dev/video*''] @ pre"
  have a: "snd (main w) = ?pre @ concat (map (inspectDevice w p) (devices_of w))"
    by (simp add: m inspectAll_concat)
  have b: "filter is_device_line ?pre = []"
    by (simp add: p locate_no_device_line [OF findV4l2Ctl_locate] header_device_line)
  have c: "filter is_popen ?pre = []"
    by (simp add: p locate_no_popen [OF findV4l2Ctl_locate] header_popen)
  have 1: "\<exists>pre. snd (main w) = pre @ concat (map (inspectDevice w p) (devices_of w))
               \<and> filter is_device_line pre = [] \<and> filter is_popen pre = []"
    by (rule exI [of _ ?pre]) (intro conjI a b c)
  have 2: "filter is_device_line (snd (main w))
           = map (\<lambda>d. Out (''DEVICE: '' @ d @ ''\<newline>'')) (devices_of w)"
    by (rule main_device_lines [OF assms])
  have 3: "length (filter is_device_line (snd (main w))) = length (devices_of w)"
    by (simp add: 2)
  have 4: "filter is_popen (snd (main w))
           = concat (map (\<lambda>d.
               [Popen (CHR 0x22 # p @ CHR 0x22 # '' --device='' @ CHR 0x22 # d
                         @ CHR 0x22 # '' --all''),
                Popen (CHR 0x22 # p @ CHR 0x22 # '' --device='' @ CHR 0x22 # d
                         @ CHR 0x22 # '' --list-formats-ext'')]) (devices_of w))"
    using main_popens [OF assms] by (simp add: cmd_all_def cmd_formats_def)
  have 5: "\<forall>d. \<exists>out1 out2.
            inspectDevice w p d
              = [Out (replicate 80 CHR ''='' @ ''\<newline>''),
                 Out (''DEVICE: '' @ d @ ''\<newline>''),
                 Out (replicate 80 CHR ''='' @ ''\<newline>\<newline>''),
                 Out ''>>> BASIC INFORMATION AND CAPABILITIES (v4l2-ctl --all)\<newline>'',
                 Popen (CHR 0x22 # p @ CHR 0x22 # '' --device='' @ CHR 0x22 # d
                          @ CHR 0x22 # '' --all'')]
                @ out1
                @ [Out ''\<newline>'',
                   Out ''>>> SUPPORTED FORMATS AND RESOLUTIONS (v4l2-ctl --list-formats-ext)\<newline>'',
                   Popen (CHR 0x22 # p @ CHR 0x22 # '' --device='' @ CHR 0x22 # d
                            @ CHR 0x22 # '' --list-formats-ext'')]
                @ out2
                @ [Out ''\<newline>'']
            \<and> filter is_popen (out1 @ out2) = []
            \<and> filter is_device_line (out1 @ out2) = []"
  proof
    fix d
    from inspectDevice_shape [of w p d] obtain out1 out2 where
      s: "inspectDevice w p d
            = banner d @ [Out label_all, Popen (cmd_all p d)] @ out1
              @ [Out ''\<newline>'', Out label_formats, Popen (cmd_formats p d)] @ out2
              @ [Out ''\<newline>'']"
      and n: "filter is_popen (out1 @ out2) = []" "filter is_device_line (out1 @ out2) = []"
      by auto
    show "\<exists>out1 out2.
            inspectDevice w p d
              = [Out (replicate 80 CHR ''='' @ ''\<newline>''),
                 Out (''DEVICE: '' @ d @ ''\<newline>''),
                 Out (replicate 80 CHR ''='' @ ''\<newline>\<newline>''),
                 Out ''>>> BASIC INFORMATION AND CAPABILITIES (v4l2-ctl --all)\<newline>'',
                 Popen (CHR 0x22 # p @ CHR 0x22 # '' --device='' @ CHR 0x22 # d
                          @ CHR 0x22 # '' --all'')]
                @ out1
                @ [Out ''\<newline>'',
                   Out ''>>> SUPPORTED FORMATS AND RESOLUTIONS (v4l2-ctl --list-formats-ext)\<newline>'',
                   Popen (CHR 0x22 # p @ CHR 0x22 # '' --device='' @ CHR 0x22 # d
                            @ CHR 0x22 # '' --list-formats-ext'')]
                @ out2
                @ [Out ''\<newline>'']
            \<and> filter is_popen (out1 @ out2) = []
            \<and> filter is_device_line (out1 @ out2) = []"
      by (rule exI [of _ out1], rule exI [of _ out2])
         (simp add: s n [simplified] banner_def rule80_def label_all_def label_formats_def
            cmd_all_def cmd_formats_def)
  qed
  show ?thesis
    by (intro conjI 1 2 3 4 5)
qed

theorem report_per_device_witness:
  "fst (findV4l2Ctl world_two_cameras) = Some ''/usr/bin/v4l2-ctl''
   \<and> filter is_device_line (snd (main world_two_cameras))
       = [Out ''DEVICE: /dev/video0\<newline>'', Out ''DEVICE: /dev/video2\<newline>'']
   \<and> filter is_popen (snd (main world_two_cameras))
       = [Popen (CHR 0x22 # ''/usr/bin/v4l2-ctl'' @ CHR 0x22 # '' --device='' @ CHR 0x22
                   # ''/dev/video0'' @ CHR 0x22 # '' --all''),
          Popen (CHR 0x22 # ''/usr/bin/v4l2-ctl'' @ CHR 0x22 # '' --device='' @ CHR 0x22
                   # ''/dev/video0'' @ CHR 0x22 # '' --list-formats-ext''),
          Popen (CHR 0x22 # ''/usr/bin/v4l2-ctl'' @ CHR 0x22 # '' --device='' @ CHR 0x22
                   # ''/dev/video2'' @ CHR 0x22 # '' --all''),
          Popen (CHR 0x22 # ''/usr/bin/v4l2-ctl'' @ CHR 0x22 # '' --device='' @ CHR 0x22
                   # ''/dev/video2'' @ CHR 0x22 # '' --list-formats-ext'')]
   \<and> inspectDevice world_two_cameras ''/usr/bin/v4l2-ctl'' ''/dev/video2''
       = [Out (replicate 80 CHR ''='' @ ''\<newline>''),
          Out ''DEVICE: /dev/video2\<newline>'',
          Out (replicate 80 CHR ''='' @ ''\<newline>\<newline>''),
          Out ''>>> BASIC INFORMATION AND CAPABILITIES (v4l2-ctl --all)\<newline>'',
          Popen (CHR 0x22 # ''/usr/bin/v4l2-ctl'' @ CHR 0x22 # '' --device='' @ CHR 0x22
                   # ''/dev/video2'' @ CHR 0x22 # '' --all''),
          Fwd ''Driver name: uvcvideo\<newline>'',
          Out ''\<newline>'',
          Out ''>>> SUPPORTED FORMATS AND RESOLUTIONS (v4l2-ctl --list-formats-ext)\<newline>'',
          Popen (CHR 0x22 # ''/usr/bin/v4l2-ctl'' @ CHR 0x22 # '' --device='' @ CHR 0x22
                   # ''/dev/video2'' @ CHR 0x22 # '' --list-formats-ext''),
          Fwd ''Driver name: uvcvideo\<newline>'',
          Out ''\<newline>'']"
proof -
  have a: "fst (findV4l2Ctl world_two_cameras) = Some ''/usr/bin/v4l2-ctl''"
    by (simp add: world_two_cameras_locate)
  note r = report_per_device [OF a]
  have b: "filter is_device_line (snd (main world_two_cameras))
       = [Out ''DEVICE: /dev/video0\<newline>'', Out ''DEVICE: /dev/video2\<newline>'']"
    using r [THEN conjunct2, THEN conjunct1] by (simp add: world_two_cameras_devices)
  have c: "filter is_popen (snd (main world_two_cameras))
       = [Popen (CHR 0x22 # ''/usr/bin/v4l2-ctl'' @ CHR 0x22 # '' --device='' @ CHR 0x22
                   # ''/dev/video0'' @ CHR 0x22 # '' --all''),
          Popen (CHR 0x22 # ''/usr/bin/v4l2-ctl'' @ CHR 0x22 # '' --device='' @ CHR 0x22
                   # ''/dev/video0'' @ CHR 0x22 # '' --list-formats-ext''),
          Popen (CHR 0x22 # ''/usr/bin/v4l2-ctl'' @ CHR 0x22 # '' --device='' @ CHR 0x22
                   # ''/dev/video2'' @ CHR 0x22 # '' --all''),
          Popen (CHR 0x22 # ''/usr/bin/v4l2-ctl'' @ CHR 0x22 # '' --device='' @ CHR 0x22
                   # ''/dev/video2'' @ CHR 0x22 # '' --list-formats-ext'')]"
    using r [THEN conjunct2, THEN conjunct2, THEN conjunct2, THEN conjunct1]
    by (simp add: world_two_cameras_devices)
  have d: "inspectDevice world_two_cameras ''/usr/bin/v4l2-ctl'' ''/dev/video2''
       = [Out (replicate 80 CHR ''='' @ ''\<newline>''),
          Out ''DEVICE: /dev/video2\<newline>'',
          Out (replicate 80 CHR ''='' @ ''\<newline>\<newline>''),
          Out ''>>> BASIC INFORMATION AND CAPABILITIES (v4l2-ctl --all)\<newline>'',
          Popen (CHR 0x22 # ''/usr/bin/v4l2-ctl'' @ CHR 0x22 # '' --device='' @ CHR 0x22
                   # ''/dev/video2'' @ CHR 0x22 # '' --all''),
          Fwd ''Driver name: uvcvideo\<newline>'',
          Out ''\<newline>'',
          Out ''>>> SUPPORTED FORMATS AND RESOLUTIONS (v4l2-ctl --list-formats-ext)\<newline>'',
          Popen (CHR 0x22 # ''/usr/bin/v4l2-ctl'' @ CHR 0x22 # '' --device='' @ CHR 0x22
                   # ''/dev/video2'' @ CHR 0x22 # '' --list-formats-ext''),
          Fwd ''Driver name: uvcvideo\<newline>'',
          Out ''\<newline>'']"
    by (simp add: inspectDevice_def banner_def rule80_def label_all_def label_formats_def
        runCommandAndPrint_def world_two_cameras_def cmd_all_def cmd_formats_def
        line_size_def c_str_def)
  show ?thesis
    by (intro conjI a b c d)
qed

text \<open>
  C3. In every run in which the backend was located the exit status is 0. A command that
  \<^verbatim>\<open>popen\<close> cannot start yields only the line \<^verbatim>\<open>Failed to run command: <cmd>\<close> on standard
  error. In the trace of the run, the first query of a discovered device that cannot be
  started is followed by this line, a blank line, the second label and the second query;
  a second query that cannot be started is followed by this line and a blank line. What
  the run writes to standard error is, device by device and query by query, this line for
  a query that cannot be started and the line of a failed \<^verbatim>\<open>pclose\<close> for one that cannot be
  closed, and nothing else. Whatever \<^verbatim>\<open>popen\<close> answers, both queries of every discovered
  device are started and every device gets its banner.
\<close>

theorem spawn_failure_is_local:
  assumes "fst (findV4l2Ctl w) = Some p"
  shows "fst (main w) = 0
       \<and> (\<forall>cmd. w_popen w cmd = None \<longrightarrow>
            runCommandAndPrint w cmd
              = (- 1, [Popen cmd, Err (''Failed to run command: '' @ cmd @ ''\<newline>'')]))
       \<and> (\<forall>d \<in> set (devices_of w).
            w_popen w (CHR 0x22 # p @ CHR 0x22 # '' --device='' @ CHR 0x22 # d
                         @ CHR 0x22 # '' --all'') = None \<longrightarrow>
            (\<exists>before after.
               snd (main w)
                 = before
                   @ [Out ''>>> BASIC INFORMATION AND CAPABILITIES (v4l2-ctl --all)\<newline>'',
                      Popen (CHR 0x22 # p @ CHR 0x22 # '' --device='' @ CHR 0x22 # d
                               @ CHR 0x22 # '' --all''),
                      Err (''Failed to run command: ''
                           @ (CHR 0x22 # p @ CHR 0x22 # '' --device='' @ CHR 0x22 # d
                                @ CHR 0x22 # '' --all'')
                           @ ''\<newline>''),
                      Out ''\<newline>'',
                      Out ''>>> SUPPORTED FORMATS AND RESOLUTIONS (v4l2-ctl --list-formats-ext)\<newline>'',
                      Popen (CHR 0x22 # p @ CHR 0x22 # '' --device='' @ CHR 0x22 # d
                               @ CHR 0x22 # '' --list-formats-ext'')]
                   @ after))
       \<and> (\<forall>d \<in> set (devices_of w).
            w_popen w (CHR 0x22 # p @ CHR 0x22 # '' --device='' @ CHR 0x22 # d
                         @ CHR 0x22 # '' --list-formats-ext'') = None \<longrightarrow>
            (\<exists>before after.
               snd (main w)
                 = before
                   @ [Out ''>>> SUPPORTED FORMATS AND RESOLUTIONS (v4l2-ctl --list-formats-ext)\<newline>'',
                      Popen (CHR 0x22 # p @ CHR 0x22 # '' --device='' @ CHR 0x22 # d
                               @ CHR 0x22 # '' --list-formats-ext''),
                      Err (''Failed to run command: ''
                           @ (CHR 0x22 # p @ CHR 0x22 # '' --device='' @ CHR 0x22 # d
                                @ CHR 0x22 # '' --list-formats-ext'')
                           @ ''\<newline>''),
                      Out ''\<newline>'']
                   @ after))
       \<and> stderr_text (snd (main w))
           = concat (map (\<lambda>d. concat (map (\<lambda>cmd.
                 case w_popen w cmd of
                   None \<Rightarrow> ''Failed to run command: '' @ cmd @ ''\<newline>''
                 | Some fp \<Rightarrow>
                     if pclose_status fp = - 1
                     then ''Error closing command stream: '' @ pclose_strerror fp @ ''\<newline>''
                     else [])
               [CHR 0x22 # p @ CHR 0x22 # '' --device='' @ CHR 0x22 # d @ CHR 0x22 # '' --all'',
                CHR 0x22 # p @ CHR 0x22 # '' --device='' @ CHR 0x22 # d
                  @ CHR 0x22 # '' --list-formats-ext''])) (devices_of w))
       \<and> filter is_popen (snd (main w))
           = concat (map (\<lambda>d.
               [Popen (CHR 0x22 # p @ CHR 0x22 # '' --device='' @ CHR 0x22 # d
                         @ CHR 0x22 # '' --all''),
                Popen (CHR 0x22 # p @ CHR 0x22 # '' --device='' @ CHR 0x22 # d
                         @ CHR 0x22 # '' --list-formats-ext'')]) (devices_of w))
       \<and> filter is_device_line (snd (main w))
           = map (\<lambda>d. Out (''DEVICE: '' @ d @ ''\<newline>'')) (devices_of w)"
proof -
  have ca: "CHR 0x22 # p @ CHR 0x22 # '' --device='' @ CHR 0x22 # d @ CHR 0x22 # '' --all''
              = cmd_all p d" for d
    by (simp add: cmd_all_def)
  have cf: "CHR 0x22 # p @ CHR 0x22 # '' --device='' @ CHR 0x22 # d
              @ CHR 0x22 # '' --list-formats-ext'' = cmd_formats p d" for d
    by (simp add: cmd_formats_def)
  have la: "''>>> BASIC INFORMATION AND CAPABILITIES (v4l2-ctl --all)\<newline>'' = label_all"
    by (simp add: label_all_def)
  have lf: "''>>> SUPPORTED FORMATS AND RESOLUTIONS (v4l2-ctl --list-formats-ext)\<newline>''
              = label_formats"
    by (simp add: label_formats_def)
  have 1: "fst (main w) = 0"
    using main_trace [OF assms] by simp
  have 2: "\<forall>cmd. w_popen w cmd = None \<longrightarrow>
            runCommandAndPrint w cmd
              = (- 1, [Popen cmd, Err (''Failed to run command: '' @ cmd @ ''\<newline>'')])"
    by (simp add: runCommandAndPrint_def)
  have 3: "\<exists>before after.
               snd (main w)
                 = before
                   @ [Out label_all, Popen (cmd_all p d),
                      Err (''Failed to run command: '' @ cmd_all p d @ ''\<newline>''),
                      Out ''\<newline>'', Out label_formats, Popen (cmd_formats p d)]
                   @ after"
    if d: "d \<in> set (devices_of w)" and n: "w_popen w (cmd_all p d) = None" for d
  proof -
    from main_block [OF assms d] obtain before after where
      m: "snd (main w) = before @ inspectDevice w p d @ after" by blast
    from run_shape [of w "cmd_formats p d"] obtain out where
      o: "snd (runCommandAndPrint w (cmd_formats p d)) = Popen (cmd_formats p d) # out"
      by blast
    have "snd (main w)
            = (before @ banner d)
              @ [Out label_all, Popen (cmd_all p d),
                 Err (''Failed to run command: '' @ cmd_all p d @ ''\<newline>''),
                 Out ''\<newline>'', Out label_formats, Popen (cmd_formats p d)]
              @ (out @ [Out ''\<newline>''] @ after)"
      by (simp add: m inspectDevice_def runCommandAndPrint_def [of w "cmd_all p d"] n o)
    then show ?thesis by (intro exI)
  qed
  have 4: "\<exists>before after.
               snd (main w)
                 = before
                   @ [Out label_formats, Popen (cmd_formats p d),
                      Err (''Failed to run command: '' @ cmd_formats p d @ ''\<newline>''),
                      Out ''\<newline>'']
                   @ after"
    if d: "d \<in> set (devices_of w)" and n: "w_popen w (cmd_formats p d) = None" for d
  proof -
    from main_block [OF assms d] obtain before after where
      m: "snd (main w) = before @ inspectDevice w p d @ after" by blast
    have "snd (main w)
            = (before @ banner d @ [Out label_all]
                 @ snd (runCommandAndPrint w (cmd_all p d)) @ [Out ''\<newline>''])
              @ [Out label_formats, Popen (cmd_formats p d),
                 Err (''Failed to run command: '' @ cmd_formats p d @ ''\<newline>''),
                 Out ''\<newline>'']
              @ after"
      by (simp add: m inspectDevice_def runCommandAndPrint_def [of w "cmd_formats p d"] n)
    then show ?thesis by (intro exI)
  qed
  have 5: "stderr_text (snd (main w))
           = concat (map (\<lambda>d. concat (map (\<lambda>cmd.
                 case w_popen w cmd of
                   None \<Rightarrow> ''Failed to run command: '' @ cmd @ ''\<newline>''
                 | Some fp \<Rightarrow>
                     if pclose_status fp = - 1
                     then ''Error closing command stream: '' @ pclose_strerror fp @ ''\<newline>''
                     else [])
               [cmd_all p d, cmd_formats p d])) (devices_of w))"
    by (simp add: main_stderr [OF assms] inspectDevice_stderr run_stderr)
  show ?thesis
    unfolding ca cf la lf
    using 3 4 by (intro conjI ballI impI 1 2 5 main_popens [OF assms]
        main_device_lines [OF assms]) blast+
qed

theorem spawn_failure_is_local_witness:
  "fst (findV4l2Ctl world_two_cameras) = Some ''/usr/bin/v4l2-ctl''
   \<and> w_popen world_two_cameras
         (CHR 0x22 # ''/usr/bin/v4l2-ctl'' @ CHR 0x22 # '' --device='' @ CHR 0x22
            # ''/dev/video0'' @ CHR 0x22 # '' --all'') = None
   \<and> fst (main world_two_cameras) = 0
   \<and> stderr_text (snd (main world_two_cameras))
       = ''Failed to run command: ''
         @ (CHR 0x22 # ''/usr/bin/v4l2-ctl'' @ CHR 0x22 # '' --device='' @ CHR 0x22
              # ''/dev/video0'' @ CHR 0x22 # '' --all'')
         @ ''\<newline>''
   \<and> filter is_popen (snd (main world_two_cameras))
       = [Popen (CHR 0x22 # ''/usr/bin/v4l2-ctl'' @ CHR 0x22 # '' --device='' @ CHR 0x22
                   # ''/dev/video0'' @ CHR 0x22 # '' --all''),
          Popen (CHR 0x22 # ''/usr/bin/v4l2-ctl'' @ CHR 0x22 # '' --device='' @ CHR 0x22
                   # ''/dev/video0'' @ CHR 0x22 # '' --list-formats-ext''),
          Popen (CHR 0x22 # ''/usr/bin/v4l2-ctl'' @ CHR 0x22 # '' --device='' @ CHR 0x22
                   # ''/dev/video2'' @ CHR 0x22 # '' --all''),
          Popen (CHR 0x22 # ''/usr/bin/v4l2-ctl'' @ CHR 0x22 # '' --device='' @ CHR 0x22
                   # ''/dev/video2'' @ CHR 0x22 # '' --list-formats-ext'')]"
proof -
  have a: "fst (findV4l2Ctl world_two_cameras) = Some ''/usr/bin/v4l2-ctl''"
    by (simp add: world_two_cameras_locate)
  have b: "w_popen world_two_cameras
         (CHR 0x22 # ''/usr/bin/v4l2-ctl'' @ CHR 0x22 # '' --device='' @ CHR 0x22
            # ''/dev/video0'' @ CHR 0x22 # '' --all'') = None"
    by (simp add: world_two_cameras_def cmd_all_def)
  note r = spawn_failure_is_local [OF a]
  have c: "fst (main world_two_cameras) = 0"
    by (rule r [THEN conjunct1])
  have d: "stderr_text (snd (main world_two_cameras))
       = ''Failed to run command: ''
         @ (CHR 0x22 # ''/usr/bin/v4l2-ctl'' @ CHR 0x22 # '' --device='' @ CHR 0x22
              # ''/dev/video0'' @ CHR 0x22 # '' --all'')
         @ ''\<newline>''"
    using r [THEN conjunct2, THEN conjunct2, THEN conjunct2, THEN conjunct2, THEN conjunct1]
    by (simp add: world_two_cameras_devices)
       (simp add: world_two_cameras_def cmd_all_def cmd_formats_def)
  have e: "filter is_popen (snd (main world_two_cameras))
       = [Popen (CHR 0x22 # ''/usr/bin/v4l2-ctl'' @ CHR 0x22 # '' --device='' @ CHR 0x22
                   # ''/dev/video0'' @ CHR 0x22 # '' --all''),
          Popen (CHR 0x22 # ''/usr/bin/v4l2-ctl'' @ CHR 0x22 # '' --device='' @ CHR 0x22
                   # ''/dev/video0'' @ CHR 0x22 # '' --list-formats-ext''),
          Popen (CHR 0x22 # ''/usr/bin/v4l2-ctl'' @ CHR 0x22 # '' --device='' @ CHR 0x22
                   # ''/dev/video2'' @ CHR 0x22 # '' --all''),
          Popen (CHR 0x22 # ''/usr/bin/v4l2-ctl'' @ CHR 0x22 # '' --device='' @ CHR 0x22
                   # ''/dev/video2'' @ CHR 0x22 # '' --list-formats-ext'')]"
    using r [THEN conjunct2, THEN conjunct2, THEN conjunct2, THEN conjunct2, THEN conjunct2,
        THEN conjunct1]
    by (simp add: world_two_cameras_devices)
  show ?thesis
    by (intro conjI a b c d e)
qed

text \<open>
  C4. When the backend was located and no character device is discovered, the exit status
  is 0, no command is started and nothing is written to standard error. When \<^verbatim>\<open>glob\<close>
  fails or matches nothing, the run ends with the line \<^verbatim>\<open>No /dev/video* devices found. Is a
  camera connected and recognized?\<close> on standard output; when it matches entries of which
  none is a character device, each entry is stat'ed and the run ends with the line
  \<^verbatim>\<open>No character-device /dev/video* nodes found.\<close> on standard output.
\<close>

theorem no_devices_is_not_an_error:
  assumes "fst (findV4l2Ctl w) = Some p" and "w_glob w ''/dev/video*'' = (r, pathv)"
    and "devices_of w = []"
  shows "fst (main w) = 0
       \<and> (r \<noteq> 0 \<or> pathv = [] \<longrightarrow>
            snd (main w)
              = snd (findV4l2Ctl w) @ header
                @ [Glob ''/dev/video*'',
                   Out ''No /dev/video* devices found. Is a camera connected and recognized?\<newline>''])
       \<and> (r = 0 \<and> pathv \<noteq> [] \<longrightarrow>
            snd (main w)
              = snd (findV4l2Ctl w) @ header
                @ [Glob ''/dev/video*'', Out ''Discovered video devices:\<newline>'']
                @ map Stat pathv
                @ [Out ''\<newline>'', Out ''No character-device /dev/video* nodes found.\<newline>''])
       \<and> filter is_popen (snd (main w)) = []
       \<and> stderr_text (snd (main w)) = []"
proof -
  obtain ev0 where f: "findV4l2Ctl w = (Some p, ev0)"
    using assms(1) by (cases "findV4l2Ctl w") auto
  have 1: "fst (main w) = 0"
    using main_trace [OF assms(1)] by simp
  have 2: "r \<noteq> 0 \<or> pathv = [] \<longrightarrow>
            snd (main w)
              = snd (findV4l2Ctl w) @ header
                @ [Glob ''/dev/video*'',
                   Out ''No /dev/video* devices found. Is a camera connected and recognized?\<newline>'']"
  proof
    assume a: "r \<noteq> 0 \<or> pathv = []"
    show "snd (main w)
              = snd (findV4l2Ctl w) @ header
                @ [Glob ''/dev/video*'',
                   Out ''No /dev/video* devices found. Is a camera connected and recognized?\<newline>'']"
      using main_no_match [OF f assms(2) a] by (simp add: f no_devices_message_def)
  qed
  have 3: "r = 0 \<and> pathv \<noteq> [] \<longrightarrow>
            snd (main w)
              = snd (findV4l2Ctl w) @ header
                @ [Glob ''/dev/video*'', Out ''Discovered video devices:\<newline>'']
                @ map Stat pathv
                @ [Out ''\<newline>'', Out ''No character-device /dev/video* nodes found.\<newline>'']"
  proof
    assume a: "r = 0 \<and> pathv \<noteq> []"
    have n: "filter (isCharDevice w) pathv = []"
      using assms(2,3) a by (simp add: devices_of_def)
    show "snd (main w)
              = snd (findV4l2Ctl w) @ header
                @ [Glob ''/dev/video*'', Out ''Discovered video devices:\<newline>'']
                @ map Stat pathv
                @ [Out ''\<newline>'', Out ''No character-device /dev/video* nodes found.\<newline>'']"
      using main_no_chardev [of w p ev0 pathv] f assms(2) a n
      by (simp add: discover_none no_chardev_message_def)
  qed
  have 4: "filter is_popen (snd (main w)) = []"
    using main_popens [OF assms(1)] by (simp add: assms(3))
  have "filter is_err (snd (main w)) = []"
    using main_errs [OF assms(1)] by (simp add: assms(3))
  then have 5: "stderr_text (snd (main w)) = []"
    by (rule no_err_stderr)
  show ?thesis
    by (intro conjI 1 2 3 4 5)
qed

theorem no_devices_is_not_an_error_witness:
  "fst (findV4l2Ctl world_only_files) = Some ''/usr/bin/v4l2-ctl''
   \<and> w_glob world_only_files ''/dev/video*''
       = (0, [''/dev/video0'', ''/dev/video1'', ''/dev/video2''])
   \<and> devices_of world_only_files = []
   \<and> main world_only_files
       = (0, [Getenv ''PATH'', Access ''/usr/local/bin/v4l2-ctl'', Access ''/usr/bin/v4l2-ctl'']
             @ header
             @ [Glob ''/dev/video*'', Out ''Discovered video devices:\<newline>'',
                Stat ''/dev/video0'', Stat ''/dev/video1'', Stat ''/dev/video2'',
                Out ''\<newline>'', Out ''No character-device /dev/video* nodes found.\<newline>''])
   \<and> fst (findV4l2Ctl world_no_match) = Some ''/usr/bin/v4l2-ctl''
   \<and> w_glob world_no_match ''/dev/video*'' = (3, [])
   \<and> devices_of world_no_match = []
   \<and> main world_no_match
       = (0, [Getenv ''PATH'', Access ''/usr/local/bin/v4l2-ctl'', Access ''/usr/bin/v4l2-ctl'']
             @ header
             @ [Glob ''/dev/video*'',
                Out ''No /dev/video* devices found. Is a camera connected and recognized?\<newline>''])"
proof -
  have g: "w_glob world_only_files ''/dev/video*''
       = (0, [''/dev/video0'', ''/dev/video1'', ''/dev/video2''])"
    by (simp add: world_only_files_def world_two_cameras_def)
  have d: "devices_of world_only_files = []"
    by (simp add: devices_of_def g isCharDevice_def) (simp add: world_only_files_def)
  have g': "w_glob world_no_match ''/dev/video*'' = (3, [])"
    by (simp add: world_no_match_def)
  have d': "devices_of world_no_match = []"
    by (simp add: devices_of_def g')
  show ?thesis
    using no_devices_is_not_an_error [of world_only_files "''/usr/bin/v4l2-ctl''" 0
        "[''/dev/video0'', ''/dev/video1'', ''/dev/video2'']"]
      no_devices_is_not_an_error [of world_no_match "''/usr/bin/v4l2-ctl''" 3 "[]"]
    by (simp add: world_only_files_locate world_no_match_locate g d g' d' prod_eq_iff)
qed

text \<open>
  C6. An entry matched by \<^verbatim>\<open>glob\<close> for which \<^verbatim>\<open>stat\<close> does not report a character device
  is not in the device set; the run writes no listing line and no \<^verbatim>\<open>DEVICE:\<close> line for
  it and starts no command on it, and every line written to standard error comes from the
  inspection of a discovered device, which is another path.
\<close>

theorem non_chardev_excluded:
  assumes "fst (findV4l2Ctl w) = Some p" and "w_glob w ''/dev/video*'' = (r, pathv)"
    and "e \<in> set pathv" and "w_stat w e \<noteq> Some CharDev"
  shows "e \<notin> set (devices_of w)
       \<and> Out (''  - '' @ e @ ''\<newline>'') \<notin> set (snd (main w))
       \<and> Out (''DEVICE: '' @ e @ ''\<newline>'') \<notin> set (snd (main w))
       \<and> Popen (cmd_all p e) \<notin> set (snd (main w))
       \<and> Popen (cmd_formats p e) \<notin> set (snd (main w))
       \<and> (\<forall>s. Err s \<in> set (snd (main w)) \<longrightarrow>
            (\<exists>d \<in> set (devices_of w). d \<noteq> e \<and> Err s \<in> set (inspectDevice w p d)))"
proof -
  have n: "\<not> isCharDevice w e"
    using assms(4) by (auto simp: isCharDevice_def split: option.splits)
  then have 1: "e \<notin> set (devices_of w)"
    using devices_of_chardev by blast
  have 2: "Out (''  - '' @ e @ ''\<newline>'') \<notin> set (snd (main w))"
  proof
    assume "Out (''  - '' @ e @ ''\<newline>'') \<in> set (snd (main w))"
    then have "Out (''  - '' @ e @ ''\<newline>'') \<in> set (filter is_listing (snd (main w)))"
      by simp
    then show False
      using 1 by (auto simp: main_listing [OF assms(1)])
  qed
  have 3: "Out (''DEVICE: '' @ e @ ''\<newline>'') \<notin> set (snd (main w))"
  proof
    assume "Out (''DEVICE: '' @ e @ ''\<newline>'') \<in> set (snd (main w))"
    then have "Out (''DEVICE: '' @ e @ ''\<newline>'') \<in> set (filter is_device_line (snd (main w)))"
      by simp
    then show False
      using 1 by (auto simp: main_device_lines [OF assms(1)])
  qed
  have popens: "\<exists>d \<in> set (devices_of w). c = cmd_all p d \<or> c = cmd_formats p d"
    if "Popen c \<in> set (snd (main w))" for c
  proof -
    from that have "Popen c \<in> set (filter is_popen (snd (main w)))"
      by simp
    then show ?thesis
      by (auto simp: main_popens [OF assms(1)])
  qed
  have 4: "Popen (cmd_all p e) \<notin> set (snd (main w))"
  proof
    assume "Popen (cmd_all p e) \<in> set (snd (main w))"
    then obtain d where d: "d \<in> set (devices_of w)"
      "cmd_all p e = cmd_all p d \<or> cmd_all p e = cmd_formats p d"
      using popens by blast
    then have "d = e"
      using cmd_all_inj [of p e d] cmd_all_formats [of p e p d] by blast
    then show False using 1 d(1) by simp
  qed
  have 5: "Popen (cmd_formats p e) \<notin> set (snd (main w))"
  proof
    assume "Popen (cmd_formats p e) \<in> set (snd (main w))"
    then obtain d where d: "d \<in> set (devices_of w)"
      "cmd_formats p e = cmd_all p d \<or> cmd_formats p e = cmd_formats p d"
      using popens by blast
    then have "d = e"
      using cmd_formats_inj [of p e d] cmd_formats_all [of p e p d] by blast
    then show False using 1 d(1) by simp
  qed
  have 6: "\<exists>d \<in> set (devices_of w). d \<noteq> e \<and> Err s \<in> set (inspectDevice w p d)"
    if "Err s \<in> set (snd (main w))" for s
  proof -
    from that have "Err s \<in> set (filter is_err (snd (main w)))"
      by simp
    then obtain d where d: "d \<in> set (devices_of w)" "Err s \<in> set (inspectDevice w p d)"
      by (auto simp: main_errs [OF assms(1)])
    have "d \<noteq> e" using 1 d(1) by auto
    then show ?thesis using d by (intro bexI [of _ d]) simp_all
  qed
  have 7: "\<forall>s. Err s \<in> set (snd (main w)) \<longrightarrow>
            (\<exists>d \<in> set (devices_of w). d \<noteq> e \<and> Err s \<in> set (inspectDevice w p d))"
    by (intro allI impI) (rule 6)
  show ?thesis
    by (intro conjI 1 2 3 4 5 7)
qed

theorem non_chardev_excluded_witness:
  "fst (findV4l2Ctl world_two_cameras) = Some ''/usr/bin/v4l2-ctl''
   \<and> w_glob world_two_cameras ''/dev/video*''
       = (0, [''/dev/video0'', ''/dev/video1'', ''/dev/video2''])
   \<and> ''/dev/video1'' \<in> set [''/dev/video0'', ''/dev/video1'', ''/dev/video2'']
   \<and> w_stat world_two_cameras ''/dev/video1'' = Some Regular
   \<and> devices_of world_two_cameras = [''/dev/video0'', ''/dev/video2'']
   \<and> Out ''  - /dev/video1\<newline>'' \<notin> set (snd (main world_two_cameras))
   \<and> Out ''DEVICE: /dev/video1\<newline>'' \<notin> set (snd (main world_two_cameras))
   \<and> Popen (cmd_all ''/usr/bin/v4l2-ctl'' ''/dev/video1'') \<notin> set (snd (main world_two_cameras))
   \<and> Popen (cmd_formats ''/usr/bin/v4l2-ctl'' ''/dev/video1'')
       \<notin> set (snd (main world_two_cameras))"
proof -
  have s: "w_stat world_two_cameras ''/dev/video1'' = Some Regular"
    by (simp add: world_two_cameras_def)
  show ?thesis
    using non_chardev_excluded [of world_two_cameras "''/usr/bin/v4l2-ctl''" 0
        "[''/dev/video0'', ''/dev/video1'', ''/dev/video2'']" "''/dev/video1''"]
    by (simp add: world_two_cameras_locate world_two_cameras_glob world_two_cameras_devices s)
qed

text \<open>
  C5, as amended. For a command that \<^verbatim>\<open>popen\<close> started: when the child writes no byte, the
  text written to standard output for it is exactly the line \<^verbatim>\<open>(no output)\<close>; when the
  child writes at least one byte and none of its bytes is NUL, the text written to
  standard output is the child's output, byte for byte, and the marker is not written.
\<close>

theorem output_forwarded_or_marked:
  assumes "w_popen w cmd = Some fp"
  shows "(child_stdout fp = [] \<longrightarrow>
            stdout_text (snd (runCommandAndPrint w cmd)) = ''(no output)\<newline>'')
       \<and> (child_stdout fp \<noteq> [] \<and> CHR 0x00 \<notin> set (child_stdout fp) \<longrightarrow>
            stdout_text (snd (runCommandAndPrint w cmd)) = child_stdout fp
            \<and> Out ''(no output)\<newline>'' \<notin> set (snd (runCommandAndPrint w cmd)))"
proof -
  have 1: "stdout_text (snd (runCommandAndPrint w cmd)) = ''(no output)\<newline>''"
    if "child_stdout fp = []"
    using assms that by (simp add: runCommandAndPrint_def Let_def)
  have 2: "stdout_text (snd (runCommandAndPrint w cmd)) = child_stdout fp"
    if "child_stdout fp \<noteq> []" "CHR 0x00 \<notin> set (child_stdout fp)"
    using assms that
    by (simp add: runCommandAndPrint_def Let_def stdout_text_append drain_verbatim)
  have 3: "Out ''(no output)\<newline>'' \<notin> set (snd (runCommandAndPrint w cmd))"
    if "child_stdout fp \<noteq> []"
    using assms that fwd_no_marker [OF drain_fwd]
    by (simp add: runCommandAndPrint_def Let_def)
  show ?thesis
    by (intro conjI impI) (simp_all add: 1 2 3)
qed

theorem output_forwarded_or_marked_witness:
  "w_popen world_two_cameras (cmd_formats ''/usr/bin/v4l2-ctl'' ''/dev/video0'')
     = Some \<lparr> child_stdout = [], pclose_status = 256, pclose_strerror = [] \<rparr>
   \<and> stdout_text (snd (runCommandAndPrint world_two_cameras
                        (cmd_formats ''/usr/bin/v4l2-ctl'' ''/dev/video0'')))
       = ''(no output)\<newline>''
   \<and> w_popen world_two_cameras (cmd_all ''/usr/bin/v4l2-ctl'' ''/dev/video2'')
     = Some \<lparr> child_stdout = ''Driver name: uvcvideo\<newline>'', pclose_status = 0,
              pclose_strerror = [] \<rparr>
   \<and> stdout_text (snd (runCommandAndPrint world_two_cameras
                        (cmd_all ''/usr/bin/v4l2-ctl'' ''/dev/video2'')))
       = ''Driver name: uvcvideo\<newline>''"
proof -
  have a: "w_popen world_two_cameras (cmd_formats ''/usr/bin/v4l2-ctl'' ''/dev/video0'')
     = Some \<lparr> child_stdout = [], pclose_status = 256, pclose_strerror = [] \<rparr>"
    by (simp add: world_two_cameras_def cmd_all_def cmd_formats_def)
  have b: "w_popen world_two_cameras (cmd_all ''/usr/bin/v4l2-ctl'' ''/dev/video2'')
     = Some \<lparr> child_stdout = ''Driver name: uvcvideo\<newline>'', pclose_status = 0,
              pclose_strerror = [] \<rparr>"
    by (simp add: world_two_cameras_def cmd_all_def cmd_formats_def)
  show ?thesis
    using output_forwarded_or_marked [OF a] output_forwarded_or_marked [OF b]
    by (simp add: a b)
qed

text \<open>
  C5 as stated fails for output with a NUL byte: \<^verbatim>\<open>std::cout << line\<close> writes the buffer
  as a C string, so of the four bytes \<^verbatim>\<open>a\<close>, NUL, \<^verbatim>\<open>b\<close>, newline only \<^verbatim>\<open>a\<close> is forwarded.
\<close>

theorem nul_byte_cuts_output:
  "w_popen world_nul_output (cmd_all ''/usr/bin/v4l2-ctl'' ''/dev/video0'') = Some nul_child
   \<and> child_stdout nul_child = [CHR ''a'', CHR 0x00, CHR ''b'', CHR 0x0A]
   \<and> stdout_text (snd (runCommandAndPrint world_nul_output
                        (cmd_all ''/usr/bin/v4l2-ctl'' ''/dev/video0''))) = ''a''
   \<and> stdout_text (snd (runCommandAndPrint world_nul_output
                        (cmd_all ''/usr/bin/v4l2-ctl'' ''/dev/video0'')))
       \<noteq> child_stdout nul_child"
  by (simp add: world_nul_output_def nul_child_def runCommandAndPrint_def line_size_def
      c_str_def)

text \<open>
  C7, as amended. The backend locator returns the joined candidate of the first entry of
  the search path, in order, that is not empty and whose candidate \<^verbatim>\<open>access\<close> reports
  executable. It reports not-found when the variable is absent or empty, and when every
  entry is empty or has a candidate that is not executable.
\<close>

theorem locator_first_nonempty_entry:
  "fst (findV4l2Ctl w) = first_executable_nonempty_entry w
   \<and> (w_getenv w ''PATH'' = None \<or> w_getenv w ''PATH'' = Some [] \<longrightarrow>
        fst (findV4l2Ctl w) = None)
   \<and> (\<forall>pathEnv. w_getenv w ''PATH'' = Some pathEnv \<longrightarrow>
        (\<forall>entry \<in> set (fields CHR '':'' pathEnv).
            entry = [] \<or> \<not> w_access w (entry @ ''/v4l2-ctl'')) \<longrightarrow>
        fst (findV4l2Ctl w) = None)"
proof -
  have 1: "fst (findV4l2Ctl w) = first_executable_nonempty_entry w"
    by (rule findV4l2Ctl_fst)
  have 2: "fst (findV4l2Ctl w) = None"
    if "w_getenv w ''PATH'' = None \<or> w_getenv w ''PATH'' = Some []"
    using that by (auto simp: 1 first_executable_nonempty_entry_def)
  have 3: "fst (findV4l2Ctl w) = None"
    if "w_getenv w ''PATH'' = Some pathEnv"
      and "\<forall>entry \<in> set (fields CHR '':'' pathEnv).
            entry = [] \<or> \<not> w_access w (entry @ ''/v4l2-ctl'')" for pathEnv
    using that by (auto simp: 1 first_executable_nonempty_entry_def find_None_iff)
  show ?thesis
    using 1 2 3 by (intro conjI allI impI) auto
qed

theorem locator_first_nonempty_entry_witness:
  "fields CHR '':'' ''/usr/local/bin::/usr/bin'' = [''/usr/local/bin'', [], ''/usr/bin'']
   \<and> fst (findV4l2Ctl world_two_cameras) = Some ''/usr/bin/v4l2-ctl''
   \<and> first_executable_nonempty_entry world_two_cameras = Some ''/usr/bin/v4l2-ctl''
   \<and> w_getenv world_no_backend ''PATH'' = Some ''/usr/local/bin:/usr/bin''
   \<and> fields CHR '':'' ''/usr/local/bin:/usr/bin'' = [''/usr/local/bin'', ''/usr/bin'']
   \<and> \<not> w_access world_no_backend ''/usr/local/bin/v4l2-ctl''
   \<and> \<not> w_access world_no_backend ''/usr/bin/v4l2-ctl''
   \<and> fst (findV4l2Ctl world_no_backend) = None"
proof -
  have a: "fields CHR '':'' ''/usr/local/bin::/usr/bin'' = [''/usr/local/bin'', [], ''/usr/bin'']"
    by simp
  have b: "fst (findV4l2Ctl world_two_cameras) = Some ''/usr/bin/v4l2-ctl''"
    by (simp add: world_two_cameras_locate)
  have c: "first_executable_nonempty_entry world_two_cameras = Some ''/usr/bin/v4l2-ctl''"
    using locator_first_nonempty_entry [of world_two_cameras, THEN conjunct1] b by simp
  have g: "w_getenv world_no_backend ''PATH'' = Some ''/usr/local/bin:/usr/bin''"
    by (simp add: world_no_backend_def)
  have e: "\<forall>entry \<in> set (fields CHR '':'' ''/usr/local/bin:/usr/bin'').
          entry = [] \<or> \<not> w_access world_no_backend (entry @ ''/v4l2-ctl'')"
    by (simp add: world_no_backend_def)
  have n: "fst (findV4l2Ctl world_no_backend) = None"
    using locator_first_nonempty_entry [of world_no_backend, THEN conjunct2, THEN conjunct2,
        THEN spec, THEN mp, OF g, THEN mp, OF e] .
  have f: "fields CHR '':'' ''/usr/local/bin:/usr/bin'' = [''/usr/local/bin'', ''/usr/bin'']"
    by simp
  have x: "\<not> w_access world_no_backend ''/usr/local/bin/v4l2-ctl''"
    and y: "\<not> w_access world_no_backend ''/usr/bin/v4l2-ctl''"
    by (simp_all add: world_no_backend_def)
  show ?thesis
    by (intro conjI a b c g f x y n)
qed

text \<open>
  C7 as stated fails on a search path with an empty entry: \<^verbatim>\<open>findV4l2Ctl\<close> skips it
  (\<^verbatim>\<open>if (token.empty()) continue;\<close>) although its joined candidate is executable, and
  returns the candidate of a later entry.
\<close>

theorem empty_entry_is_skipped:
  "w_getenv world_empty_entry ''PATH'' = Some '':/usr/bin''
   \<and> fields CHR '':'' '':/usr/bin'' = [[], ''/usr/bin'']
   \<and> w_access world_empty_entry ([] @ ''/v4l2-ctl'')
   \<and> first_executable_entry world_empty_entry = Some ''/v4l2-ctl''
   \<and> fst (findV4l2Ctl world_empty_entry) = Some ''/usr/bin/v4l2-ctl''
   \<and> fst (findV4l2Ctl world_empty_entry) \<noteq> first_executable_entry world_empty_entry"
  by (simp add: world_empty_entry_def first_executable_entry_def findV4l2Ctl_def
      findV4l2Ctl_loop.simps Let_def)

text \<open>
  C8, as amended. When the locator succeeds, the backend path is a non-empty entry of the
  search path joined with \<^verbatim>\<open>/v4l2-ctl\<close>, executable when it was looked up, and absolute
  exactly when that entry is absolute. The search path is read once in the run, and every
  command the run starts is one of the two command lines built from this one path.
\<close>

theorem backend_path_fixed:
  assumes "fst (findV4l2Ctl w) = Some p"
  shows "(\<exists>pathEnv entry. w_getenv w ''PATH'' = Some pathEnv
            \<and> entry \<in> set (fields CHR '':'' pathEnv) \<and> entry \<noteq> []
            \<and> p = entry @ ''/v4l2-ctl'' \<and> w_access w p
            \<and> is_absolute p = is_absolute entry)
       \<and> filter is_getenv (snd (main w)) = [Getenv ''PATH'']
       \<and> filter is_popen (snd (main w))
           = concat (map (\<lambda>d. [Popen (cmd_all p d), Popen (cmd_formats p d)]) (devices_of w))"
proof -
  have n: "first_executable_nonempty_entry w = Some p"
    using assms findV4l2Ctl_fst [of w] by simp
  then obtain pathEnv where e: "w_getenv w ''PATH'' = Some pathEnv"
    by (cases "w_getenv w ''PATH''") (auto simp: first_executable_nonempty_entry_def)
  have "find (w_access w)
          (map (\<lambda>entry. entry @ ''/v4l2-ctl'')
             (filter (\<lambda>entry. entry \<noteq> []) (fields CHR '':'' pathEnv))) = Some p"
    using n e by (simp add: first_executable_nonempty_entry_def)
  from find_SomeD [OF this] obtain entry where
    en: "entry \<in> set (fields CHR '':'' pathEnv)" "entry \<noteq> []" "p = entry @ ''/v4l2-ctl''"
    and acc: "w_access w p"
    by auto
  have ab: "is_absolute p = is_absolute entry"
    unfolding en(3) by (rule is_absolute_append [OF en(2)])
  have 1: "\<exists>pathEnv entry. w_getenv w ''PATH'' = Some pathEnv
            \<and> entry \<in> set (fields CHR '':'' pathEnv) \<and> entry \<noteq> []
            \<and> p = entry @ ''/v4l2-ctl'' \<and> w_access w p
            \<and> is_absolute p = is_absolute entry"
    using e en acc ab by (intro exI [of _ pathEnv] exI [of _ entry]) (simp only: simp_thms)
  show ?thesis
    by (intro conjI 1 main_getenv_once main_popens [OF assms])
qed

theorem backend_path_fixed_witness:
  "fst (findV4l2Ctl world_relative_entry) = Some ''bin/v4l2-ctl''
   \<and> filter is_getenv (snd (main world_relative_entry)) = [Getenv ''PATH'']
   \<and> filter is_popen (snd (main world_relative_entry))
       = [Popen (cmd_all ''bin/v4l2-ctl'' ''/dev/video0''),
          Popen (cmd_formats ''bin/v4l2-ctl'' ''/dev/video0''),
          Popen (cmd_all ''bin/v4l2-ctl'' ''/dev/video2''),
          Popen (cmd_formats ''bin/v4l2-ctl'' ''/dev/video2'')]"
proof -
  have f: "fst (findV4l2Ctl world_relative_entry) = Some ''bin/v4l2-ctl''"
    by (simp add: world_relative_entry_def findV4l2Ctl_def findV4l2Ctl_loop.simps Let_def)
  have d: "devices_of world_relative_entry = [''/dev/video0'', ''/dev/video2'']"
    by (simp add: devices_of_def world_relative_entry_def world_two_cameras_def
        isCharDevice_def)
  show ?thesis
    using backend_path_fixed [OF f] by (simp add: f d)
qed

text \<open>
  C8 as stated fails on a search path with a relative entry: the backend path is then
  relative.
\<close>

theorem backend_path_relative:
  "w_getenv world_relative_entry ''PATH'' = Some ''bin:/usr/bin''
   \<and> fst (findV4l2Ctl world_relative_entry) = Some ''bin/v4l2-ctl''
   \<and> \<not> is_absolute ''bin/v4l2-ctl''"
  by (simp add: world_relative_entry_def findV4l2Ctl_def findV4l2Ctl_loop.simps Let_def
      is_absolute_def)

text \<open>
  C9. Two runs in which the locator gives the same result, \<^verbatim>\<open>glob\<close> gives the same matches,
  the matches have the same character-device status and the backend behaves the same on
  the command lines of the discovered devices, end with the same exit status and write the
  same bytes to standard output and to standard error; after the calls of the locator the
  two traces are the same, event for event.
\<close>

theorem reports_are_reproducible:
  assumes "fst (findV4l2Ctl w1) = fst (findV4l2Ctl w2)"
    and "w_glob w1 ''/dev/video*'' = w_glob w2 ''/dev/video*''"
    and "\<forall>path \<in> set (snd (w_glob w1 ''/dev/video*'')).
           isCharDevice w1 path = isCharDevice w2 path"
    and "\<forall>p. fst (findV4l2Ctl w1) = Some p \<longrightarrow>
           (\<forall>d \<in> set (devices_of w1).
              same_answer (w_popen w1 (cmd_all p d)) (w_popen w2 (cmd_all p d))
              \<and> same_answer (w_popen w1 (cmd_formats p d)) (w_popen w2 (cmd_formats p d)))"
  shows "fst (main w1) = fst (main w2)
       \<and> stdout_text (snd (main w1)) = stdout_text (snd (main w2))
       \<and> stderr_text (snd (main w1)) = stderr_text (snd (main w2))
       \<and> (\<exists>rest. snd (main w1) = snd (findV4l2Ctl w1) @ rest
                 \<and> snd (main w2) = snd (findV4l2Ctl w2) @ rest)"
proof -
  obtain found ev1 where f1: "findV4l2Ctl w1 = (found, ev1)"
    by (cases "findV4l2Ctl w1")
  obtain ev2 where f2: "findV4l2Ctl w2 = (found, ev2)"
    using assms(1) f1 by (cases "findV4l2Ctl w2") auto
  have l1: "list_all is_locate ev1" using findV4l2Ctl_locate [of w1] f1 by simp
  have l2: "list_all is_locate ev2" using findV4l2Ctl_locate [of w2] f2 by simp
  have "\<exists>rest code. main w1 = (code, ev1 @ rest) \<and> main w2 = (code, ev2 @ rest)"
  proof (cases found)
    case None
    show ?thesis
      using f1 f2 None by (simp add: main_def)
  next
    case (Some p)
    have i: "\<forall>d \<in> set (devices_of w1). inspectDevice w1 p d = inspectDevice w2 p d"
    proof
      fix d assume d: "d \<in> set (devices_of w1)"
      have "fst (findV4l2Ctl w1) = Some p" using f1 Some by simp
      with assms(4) d have
        "same_answer (w_popen w1 (cmd_all p d)) (w_popen w2 (cmd_all p d))"
        "same_answer (w_popen w1 (cmd_formats p d)) (w_popen w2 (cmd_formats p d))"
        by auto
      then show "inspectDevice w1 p d = inspectDevice w2 p d"
        by (simp add: inspectDevice_def run_same_answer)
    qed
    show ?thesis
      using main_found_cong [OF f1 [unfolded Some] f2 [unfolded Some] assms(2,3) i] by auto
  qed
  then obtain rest code where m: "main w1 = (code, ev1 @ rest)" "main w2 = (code, ev2 @ rest)"
    by auto
  have 4: "\<exists>rest. snd (main w1) = snd (findV4l2Ctl w1) @ rest
                 \<and> snd (main w2) = snd (findV4l2Ctl w2) @ rest"
    by (rule exI [of _ rest]) (simp add: m f1 f2)
  have 1: "fst (main w1) = fst (main w2)" by (simp add: m)
  have 2: "stdout_text (snd (main w1)) = stdout_text (snd (main w2))"
    by (simp add: m stdout_text_append locate_stdout [OF l1] locate_stdout [OF l2])
  have 3: "stderr_text (snd (main w1)) = stderr_text (snd (main w2))"
    by (simp add: m stderr_text_append locate_stderr [OF l1] locate_stderr [OF l2])
  show ?thesis
    by (intro conjI 1 2 3 4)
qed

theorem reports_are_reproducible_witness:
  "fst (findV4l2Ctl world_two_cameras) = fst (findV4l2Ctl world_other_host)
   \<and> snd (findV4l2Ctl world_two_cameras) \<noteq> snd (findV4l2Ctl world_other_host)
   \<and> w_glob world_two_cameras ''/dev/video*'' = w_glob world_other_host ''/dev/video*''
   \<and> w_stat world_two_cameras ''/dev/video1'' = Some Regular
   \<and> w_stat world_other_host ''/dev/video1'' = Some Directory
   \<and> fst (main world_two_cameras) = fst (main world_other_host)
   \<and> stdout_text (snd (main world_two_cameras)) = stdout_text (snd (main world_other_host))
   \<and> stderr_text (snd (main world_two_cameras)) = stderr_text (snd (main world_other_host))"
proof -
  have a: "fst (findV4l2Ctl world_two_cameras) = fst (findV4l2Ctl world_other_host)"
    by (simp add: world_two_cameras_locate world_other_host_locate)
  have a': "snd (findV4l2Ctl world_two_cameras) \<noteq> snd (findV4l2Ctl world_other_host)"
    by (simp add: world_two_cameras_locate world_other_host_locate)
  have b: "w_glob world_two_cameras ''/dev/video*'' = w_glob world_other_host ''/dev/video*''"
    by (simp add: world_two_cameras_def world_other_host_def)
  have c: "\<forall>path \<in> set (snd (w_glob world_two_cameras ''/dev/video*'')).
             isCharDevice world_two_cameras path = isCharDevice world_other_host path"
    by (simp add: world_two_cameras_glob isCharDevice_def)
       (simp add: world_two_cameras_def world_other_host_def)
  have d: "\<forall>p. fst (findV4l2Ctl world_two_cameras) = Some p \<longrightarrow>
           (\<forall>d \<in> set (devices_of world_two_cameras).
              same_answer (w_popen world_two_cameras (cmd_all p d))
                (w_popen world_other_host (cmd_all p d))
              \<and> same_answer (w_popen world_two_cameras (cmd_formats p d))
                  (w_popen world_other_host (cmd_formats p d)))"
    by (simp add: world_two_cameras_locate world_two_cameras_devices)
       (simp add: world_two_cameras_def world_other_host_def same_answer_def cmd_all_def
          cmd_formats_def)
  have s1: "w_stat world_two_cameras ''/dev/video1'' = Some Regular"
    by (simp add: world_two_cameras_def)
  have s2: "w_stat world_other_host ''/dev/video1'' = Some Directory"
    by (simp add: world_other_host_def)
  note r = reports_are_reproducible [OF a b c d]
  show ?thesis
    by (intro conjI a a' b s1 s2 r [THEN conjunct1] r [THEN conjunct2, THEN conjunct1]
        r [THEN conjunct2, THEN conjunct2, THEN conjunct1])
qed

text \<open>
  C10. When \<^verbatim>\<open>pclose\<close> returns anything but \<open>-1\<close> for a started command, the call returns
  0 and its events are the command, its forwarded output or the marker when there was
  none, and no error line. The whole run is the same as the run in which \<^verbatim>\<open>pclose\<close>
  returns 0 for that command, and the exit status is 0 whenever the backend was located.
\<close>

theorem exit_status_not_inspected:
  assumes "w_popen w cmd = Some fp" and "pclose_status fp \<noteq> - 1"
  shows "runCommandAndPrint w cmd
           = (0, Popen cmd # drain (child_stdout fp)
                 @ (if child_stdout fp = [] then [Out ''(no output)\<newline>''] else []))
       \<and> filter is_err (snd (runCommandAndPrint w cmd)) = []
       \<and> main (w\<lparr>w_popen := (w_popen w)(cmd \<mapsto> fp\<lparr>pclose_status := 0\<rparr>)\<rparr>) = main w
       \<and> (\<forall>p. fst (findV4l2Ctl w) = Some p \<longrightarrow> fst (main w) = 0)"
proof -
  let ?w = "w\<lparr>w_popen := (w_popen w)(cmd \<mapsto> fp\<lparr>pclose_status := 0\<rparr>)\<rparr>"
  have 1: "runCommandAndPrint w cmd
           = (0, Popen cmd # drain (child_stdout fp)
                 @ (if child_stdout fp = [] then [Out ''(no output)\<newline>''] else []))"
    using assms by (simp add: runCommandAndPrint_def Let_def)
  have 2: "filter is_err (snd (runCommandAndPrint w cmd)) = []"
    using fwd_no_err [OF drain_fwd] by (simp add: 1)
  have r: "runCommandAndPrint ?w c = runCommandAndPrint w c" for c
    using assms by (cases "c = cmd") (simp_all add: runCommandAndPrint_def Let_def)
  have 3: "main ?w = main w"
    by (rule main_cong) (simp_all add: findV4l2Ctl_popen isCharDevice_def r)
  have 4: "\<forall>p. fst (findV4l2Ctl w) = Some p \<longrightarrow> fst (main w) = 0"
    using main_trace by blast
  show ?thesis
    by (intro conjI 1 2 3 4)
qed

theorem exit_status_not_inspected_witness:
  "w_popen world_two_cameras (cmd_formats ''/usr/bin/v4l2-ctl'' ''/dev/video0'')
     = Some \<lparr> child_stdout = [], pclose_status = 256, pclose_strerror = [] \<rparr>
   \<and> runCommandAndPrint world_two_cameras (cmd_formats ''/usr/bin/v4l2-ctl'' ''/dev/video0'')
       = (0, [Popen (cmd_formats ''/usr/bin/v4l2-ctl'' ''/dev/video0''),
              Out ''(no output)\<newline>''])
   \<and> fst (main world_two_cameras) = 0"
proof -
  have a: "w_popen world_two_cameras (cmd_formats ''/usr/bin/v4l2-ctl'' ''/dev/video0'')
     = Some \<lparr> child_stdout = [], pclose_status = 256, pclose_strerror = [] \<rparr>"
    by (simp add: world_two_cameras_def cmd_all_def cmd_formats_def)
  have b: "pclose_status \<lparr> child_stdout = [], pclose_status = 256, pclose_strerror = [] \<rparr> \<noteq> - 1"
    by simp
  note r = exit_status_not_inspected [OF a b]
  have c: "runCommandAndPrint world_two_cameras (cmd_formats ''/usr/bin/v4l2-ctl'' ''/dev/video0'')
       = (0, [Popen (cmd_formats ''/usr/bin/v4l2-ctl'' ''/dev/video0''),
              Out ''(no output)\<newline>''])"
    using r [THEN conjunct1] by simp
  have d: "fst (main world_two_cameras) = 0"
    using r [THEN conjunct2, THEN conjunct2, THEN conjunct2, THEN spec,
        of "''/usr/bin/v4l2-ctl''"]
    by (simp add: world_two_cameras_locate)
  show ?thesis
    by (intro conjI a c d)
qed

end
